theory Spec2Isabelle
  imports Complex_Main "HOL-Library.List_Lexorder" "HOL-Library.Char_ord" "HOL-Library.Log_Nat"
begin

section \<open>Letter grades (PhFitnessRecord.tsx, gradeThresholds and determineGrade)\<close>

text \<open>
  A JavaScript exception is a value of \<open>js_error\<close>; a function that can throw returns
  \<open>js_error + 'a\<close>, with \<open>Inl\<close> for the exception.
\<close>

datatype js_error = TypeError

text \<open>
  \<^verbatim>\<open>const gradeThresholds: { [key: string]: number[] } = { G1: [39, 33, 27, 22, 2], ... }\<close>
  The object literal is an association list; reading a key is \<open>map_of\<close>, and a key that is
  absent reads as \<open>None\<close> (JavaScript's \<open>undefined\<close>). No property of \<open>Object.prototype\<close>
  has a name of at most two characters, so the inherited properties never answer a read
  \<open>gradeThresholds[gradeLevel.slice(0, 2)]\<close>.
\<close>

definition gradeThresholds_entries :: "(string \<times> int list) list" where
  "gradeThresholds_entries =
    [(''G1'', [39, 33, 27, 22, 2]),
     (''G2'', [47, 41, 34, 27, 26]),
     (''G3'', [53, 46, 39, 32, 31]),
     (''G4'', [59, 52, 45, 38, 37]),
     (''G5'', [65, 58, 50, 42, 41]),
     (''G6'', [71, 63, 55, 46, 45])]"

definition gradeThresholds :: "string \<Rightarrow> int list option" where
  "gradeThresholds = map_of gradeThresholds_entries"

text \<open>
  The \<open>for\<close> loop of \<open>determineGrade\<close>, from index \<open>i\<close>:
  \<^verbatim>\<open>for (let i = 0; i < thresholds.length; i++) {
    if (totalScore >= thresholds[i]) { return String.fromCharCode(65 + i); }
  }
  return 'E';\<close>
\<close>

function determineGrade_loop :: "int \<Rightarrow> int list \<Rightarrow> nat \<Rightarrow> string" where
  "determineGrade_loop totalScore thresholds i =
    (if i < length thresholds
     then (if totalScore \<ge> thresholds ! i then [char_of (65 + i)]
           else determineGrade_loop totalScore thresholds (i + 1))
     else ''E'')"
  by pat_completeness auto
termination
  by (relation "measure (\<lambda>(totalScore, thresholds, i). length thresholds - i)") auto

declare determineGrade_loop.simps [simp del]

text \<open>
  \<^verbatim>\<open>const thresholds = gradeThresholds[gradeLevel.slice(0, 2)];\<close>
  When the key is absent, \<open>thresholds\<close> is \<open>undefined\<close> and \<open>thresholds.length\<close> throws a
  TypeError.
\<close>

definition determineGrade :: "int \<Rightarrow> string \<Rightarrow> js_error + string" where
  "determineGrade totalScore gradeLevel =
    (case gradeThresholds (take 2 gradeLevel) of
       None \<Rightarrow> Inl TypeError
     | Some thresholds \<Rightarrow> Inr (determineGrade_loop totalScore thresholds 0))"

section \<open>Scoring (PhFitnessRecord.tsx, scoringTables and calculateScore)\<close>

subsection \<open>Numbers\<close>

text \<open>
  A JavaScript number is a finite value, one of the two infinities, or NaN. Finite values
  are rationals, and the operations of this section are exact: \<open>8.1\<close> is the rational
  81/10 and \<open>x * 10\<close> is the exact product, which is what binary64 arithmetic returns for
  integer measurements. The rounding of binary64 arithmetic, which a sprint time with
  decimals meets, is in the section on the sprint branch below. Signed zeros are not
  distinguished.
\<close>

datatype number = Num rat | PosInfinity | NegInfinity | NaN

text \<open>\<open>a <= b\<close> and \<open>a >= b\<close> on numbers: every comparison with NaN is false.\<close>

fun number_le :: "number \<Rightarrow> number \<Rightarrow> bool" where
  "number_le NaN b = False"
| "number_le a NaN = False"
| "number_le NegInfinity b = True"
| "number_le a PosInfinity = True"
| "number_le (Num a) (Num b) = (a \<le> b)"
| "number_le PosInfinity b = False"
| "number_le a NegInfinity = False"

definition number_ge :: "number \<Rightarrow> number \<Rightarrow> bool" where
  "number_ge a b = number_le b a"

text \<open>
  \<open>Math.max\<close> of a list of arguments: \<open>-Infinity\<close> for no argument, NaN as soon as one
  argument is NaN, the largest argument otherwise.
\<close>

fun Math_max2 :: "number \<Rightarrow> number \<Rightarrow> number" where
  "Math_max2 NaN b = NaN"
| "Math_max2 a NaN = NaN"
| "Math_max2 a b = (if number_le a b then b else a)"

fun Math_max :: "number list \<Rightarrow> number" where
  "Math_max [] = NegInfinity"
| "Math_max (x # xs) = Math_max2 x (Math_max xs)"

text \<open>\<open>Math.floor(x)\<close>, \<open>x * 10\<close> and \<open>x / 10\<close>; the infinities and NaN are unchanged.\<close>

fun Math_floor :: "number \<Rightarrow> number" where
  "Math_floor (Num x) = Num (of_int \<lfloor>x\<rfloor>)"
| "Math_floor x = x"

fun times10 :: "number \<Rightarrow> number" where
  "times10 (Num x) = Num (x * 10)"
| "times10 x = x"

fun divide10 :: "number \<Rightarrow> number" where
  "divide10 (Num x) = Num (x / 10)"
| "divide10 x = x"

text \<open>
  A value read from a \<open>Record<string, number>\<close> is \<open>undefined\<close> (\<open>None\<close>) when the key is
  absent. \<open>a ?? b\<close> replaces \<open>undefined\<close> by \<open>b\<close>; arithmetic, comparisons and \<open>Math.max\<close>
  convert \<open>undefined\<close> to NaN (\<open>ToNumber\<close>).
\<close>

definition nullish :: "number option \<Rightarrow> number option \<Rightarrow> number option" where
  "nullish a b = (case a of None \<Rightarrow> b | Some v \<Rightarrow> Some v)"

definition ToNumber :: "number option \<Rightarrow> number" where
  "ToNumber a = (case a of None \<Rightarrow> NaN | Some v \<Rightarrow> v)"

subsection \<open>The scoring tables\<close>

text \<open>
  \<^verbatim>\<open>interface ScoreRange { min: number; max: number; score: number; }\<close>
  The fields \<open>min\<close> and \<open>max\<close> are \<open>range_min\<close> and \<open>range_max\<close>; every score of the
  tables is an integer literal.
\<close>

record ScoreRange =
  range_min :: number
  range_max :: number
  score :: int

datatype gender = Boy | Girl

definition scoringTables_gripStrength_Boy :: "ScoreRange list" where
  "scoringTables_gripStrength_Boy =
    [\<lparr>range_min = Num 26, range_max = Num 100, score = 10\<rparr>,
     \<lparr>range_min = Num 23, range_max = Num 25, score = 9\<rparr>,
     \<lparr>range_min = Num 20, range_max = Num 22, score = 8\<rparr>,
     \<lparr>range_min = Num 17, range_max = Num 19, score = 7\<rparr>,
     \<lparr>range_min = Num 14, range_max = Num 16, score = 6\<rparr>,
     \<lparr>range_min = Num 11, range_max = Num 13, score = 5\<rparr>,
     \<lparr>range_min = Num 9, range_max = Num 10, score = 4\<rparr>,
     \<lparr>range_min = Num 7, range_max = Num 8, score = 3\<rparr>,
     \<lparr>range_min = Num 5, range_max = Num 6, score = 2\<rparr>,
     \<lparr>range_min = Num 4, range_max = Num 4, score = 1\<rparr>]"

definition scoringTables_gripStrength_Girl :: "ScoreRange list" where
  "scoringTables_gripStrength_Girl =
    [\<lparr>range_min = Num 25, range_max = Num 100, score = 10\<rparr>,
     \<lparr>range_min = Num 22, range_max = Num 24, score = 9\<rparr>,
     \<lparr>range_min = Num 19, range_max = Num 21, score = 8\<rparr>,
     \<lparr>range_min = Num 16, range_max = Num 18, score = 7\<rparr>,
     \<lparr>range_min = Num 13, range_max = Num 15, score = 6\<rparr>,
     \<lparr>range_min = Num 11, range_max = Num 12, score = 5\<rparr>,
     \<lparr>range_min = Num 9, range_max = Num 10, score = 4\<rparr>,
     \<lparr>range_min = Num 7, range_max = Num 8, score = 3\<rparr>,
     \<lparr>range_min = Num 4, range_max = Num 6, score = 2\<rparr>,
     \<lparr>range_min = Num 3, range_max = Num 3, score = 1\<rparr>]"

definition scoringTables_situps_Boy :: "ScoreRange list" where
  "scoringTables_situps_Boy =
    [\<lparr>range_min = Num 26, range_max = PosInfinity, score = 10\<rparr>,
     \<lparr>range_min = Num 23, range_max = Num 25, score = 9\<rparr>,
     \<lparr>range_min = Num 20, range_max = Num 22, score = 8\<rparr>,
     \<lparr>range_min = Num 18, range_max = Num 19, score = 7\<rparr>,
     \<lparr>range_min = Num 15, range_max = Num 17, score = 6\<rparr>,
     \<lparr>range_min = Num 12, range_max = Num 14, score = 5\<rparr>,
     \<lparr>range_min = Num 10, range_max = Num 11, score = 4\<rparr>,
     \<lparr>range_min = Num 6, range_max = Num 9, score = 3\<rparr>,
     \<lparr>range_min = Num 3, range_max = Num 5, score = 2\<rparr>,
     \<lparr>range_min = Num 2, range_max = Num 2, score = 1\<rparr>]"

definition scoringTables_situps_Girl :: "ScoreRange list" where
  "scoringTables_situps_Girl =
    [\<lparr>range_min = Num 23, range_max = PosInfinity, score = 10\<rparr>,
     \<lparr>range_min = Num 20, range_max = Num 22, score = 9\<rparr>,
     \<lparr>range_min = Num 18, range_max = Num 19, score = 8\<rparr>,
     \<lparr>range_min = Num 16, range_max = Num 17, score = 7\<rparr>,
     \<lparr>range_min = Num 14, range_max = Num 15, score = 6\<rparr>,
     \<lparr>range_min = Num 12, range_max = Num 13, score = 5\<rparr>,
     \<lparr>range_min = Num 10, range_max = Num 11, score = 4\<rparr>,
     \<lparr>range_min = Num 6, range_max = Num 9, score = 3\<rparr>,
     \<lparr>range_min = Num 3, range_max = Num 5, score = 2\<rparr>,
     \<lparr>range_min = Num 2, range_max = Num 2, score = 1\<rparr>]"

definition scoringTables_seatedtoetouch_Boy :: "ScoreRange list" where
  "scoringTables_seatedtoetouch_Boy =
    [\<lparr>range_min = Num 49, range_max = PosInfinity, score = 10\<rparr>,
     \<lparr>range_min = Num 43, range_max = Num 48, score = 9\<rparr>,
     \<lparr>range_min = Num 38, range_max = Num 42, score = 8\<rparr>,
     \<lparr>range_min = Num 34, range_max = Num 37, score = 7\<rparr>,
     \<lparr>range_min = Num 30, range_max = Num 33, score = 6\<rparr>,
     \<lparr>range_min = Num 27, range_max = Num 29, score = 5\<rparr>,
     \<lparr>range_min = Num 23, range_max = Num 26, score = 4\<rparr>,
     \<lparr>range_min = Num 19, range_max = Num 22, score = 3\<rparr>,
     \<lparr>range_min = Num 15, range_max = Num 18, score = 2\<rparr>,
     \<lparr>range_min = Num 14, range_max = Num 14, score = 1\<rparr>]"

definition scoringTables_seatedtoetouch_Girl :: "ScoreRange list" where
  "scoringTables_seatedtoetouch_Girl =
    [\<lparr>range_min = Num 52, range_max = PosInfinity, score = 10\<rparr>,
     \<lparr>range_min = Num 46, range_max = Num 51, score = 9\<rparr>,
     \<lparr>range_min = Num 41, range_max = Num 45, score = 8\<rparr>,
     \<lparr>range_min = Num 37, range_max = Num 40, score = 7\<rparr>,
     \<lparr>range_min = Num 33, range_max = Num 36, score = 6\<rparr>,
     \<lparr>range_min = Num 29, range_max = Num 32, score = 5\<rparr>,
     \<lparr>range_min = Num 24, range_max = Num 28, score = 4\<rparr>,
     \<lparr>range_min = Num 21, range_max = Num 23, score = 3\<rparr>,
     \<lparr>range_min = Num 18, range_max = Num 20, score = 2\<rparr>,
     \<lparr>range_min = Num 17, range_max = Num 17, score = 1\<rparr>]"

definition scoringTables_sidesteps_Boy :: "ScoreRange list" where
  "scoringTables_sidesteps_Boy =
    [\<lparr>range_min = Num 50, range_max = PosInfinity, score = 10\<rparr>,
     \<lparr>range_min = Num 46, range_max = Num 49, score = 9\<rparr>,
     \<lparr>range_min = Num 42, range_max = Num 45, score = 8\<rparr>,
     \<lparr>range_min = Num 38, range_max = Num 41, score = 7\<rparr>,
     \<lparr>range_min = Num 34, range_max = Num 37, score = 6\<rparr>,
     \<lparr>range_min = Num 30, range_max = Num 33, score = 5\<rparr>,
     \<lparr>range_min = Num 26, range_max = Num 29, score = 4\<rparr>,
     \<lparr>range_min = Num 22, range_max = Num 25, score = 3\<rparr>,
     \<lparr>range_min = Num 18, range_max = Num 21, score = 2\<rparr>,
     \<lparr>range_min = Num 1, range_max = Num 17, score = 1\<rparr>]"

definition scoringTables_sidesteps_Girl :: "ScoreRange list" where
  "scoringTables_sidesteps_Girl =
    [\<lparr>range_min = Num 47, range_max = PosInfinity, score = 10\<rparr>,
     \<lparr>range_min = Num 43, range_max = Num 46, score = 9\<rparr>,
     \<lparr>range_min = Num 40, range_max = Num 42, score = 8\<rparr>,
     \<lparr>range_min = Num 36, range_max = Num 39, score = 7\<rparr>,
     \<lparr>range_min = Num 32, range_max = Num 35, score = 6\<rparr>,
     \<lparr>range_min = Num 28, range_max = Num 31, score = 5\<rparr>,
     \<lparr>range_min = Num 25, range_max = Num 27, score = 4\<rparr>,
     \<lparr>range_min = Num 21, range_max = Num 24, score = 3\<rparr>,
     \<lparr>range_min = Num 17, range_max = Num 20, score = 2\<rparr>,
     \<lparr>range_min = Num 1, range_max = Num 16, score = 1\<rparr>]"

definition scoringTables_shuttleruns_20m_Boy :: "ScoreRange list" where
  "scoringTables_shuttleruns_20m_Boy =
    [\<lparr>range_min = Num 80, range_max = PosInfinity, score = 10\<rparr>,
     \<lparr>range_min = Num 69, range_max = Num 79, score = 9\<rparr>,
     \<lparr>range_min = Num 57, range_max = Num 68, score = 8\<rparr>,
     \<lparr>range_min = Num 45, range_max = Num 56, score = 7\<rparr>,
     \<lparr>range_min = Num 33, range_max = Num 44, score = 6\<rparr>,
     \<lparr>range_min = Num 23, range_max = Num 32, score = 5\<rparr>,
     \<lparr>range_min = Num 15, range_max = Num 22, score = 4\<rparr>,
     \<lparr>range_min = Num 10, range_max = Num 14, score = 3\<rparr>,
     \<lparr>range_min = Num 8, range_max = Num 9, score = 2\<rparr>,
     \<lparr>range_min = Num 1, range_max = Num 7, score = 1\<rparr>]"

definition scoringTables_shuttleruns_20m_Girl :: "ScoreRange list" where
  "scoringTables_shuttleruns_20m_Girl =
    [\<lparr>range_min = Num 64, range_max = PosInfinity, score = 10\<rparr>,
     \<lparr>range_min = Num 54, range_max = Num 63, score = 9\<rparr>,
     \<lparr>range_min = Num 44, range_max = Num 53, score = 8\<rparr>,
     \<lparr>range_min = Num 35, range_max = Num 43, score = 7\<rparr>,
     \<lparr>range_min = Num 26, range_max = Num 34, score = 6\<rparr>,
     \<lparr>range_min = Num 19, range_max = Num 25, score = 5\<rparr>,
     \<lparr>range_min = Num 14, range_max = Num 18, score = 4\<rparr>,
     \<lparr>range_min = Num 10, range_max = Num 13, score = 3\<rparr>,
     \<lparr>range_min = Num 8, range_max = Num 9, score = 2\<rparr>,
     \<lparr>range_min = Num 1, range_max = Num 7, score = 1\<rparr>]"

definition scoringTables_sprint_50m_Boy :: "ScoreRange list" where
  "scoringTables_sprint_50m_Boy =
    [\<lparr>range_min = Num 1, range_max = Num 8.0, score = 10\<rparr>,
     \<lparr>range_min = Num 8.1, range_max = Num 8.4, score = 9\<rparr>,
     \<lparr>range_min = Num 8.5, range_max = Num 8.8, score = 8\<rparr>,
     \<lparr>range_min = Num 8.9, range_max = Num 9.3, score = 7\<rparr>,
     \<lparr>range_min = Num 9.4, range_max = Num 9.9, score = 6\<rparr>,
     \<lparr>range_min = Num 10.0, range_max = Num 10.6, score = 5\<rparr>,
     \<lparr>range_min = Num 10.7, range_max = Num 11.4, score = 4\<rparr>,
     \<lparr>range_min = Num 11.5, range_max = Num 12.2, score = 3\<rparr>,
     \<lparr>range_min = Num 12.3, range_max = Num 13.0, score = 2\<rparr>,
     \<lparr>range_min = Num 13.1, range_max = PosInfinity, score = 1\<rparr>]"

definition scoringTables_sprint_50m_Girl :: "ScoreRange list" where
  "scoringTables_sprint_50m_Girl =
    [\<lparr>range_min = Num 1, range_max = Num 8.3, score = 10\<rparr>,
     \<lparr>range_min = Num 8.4, range_max = Num 8.7, score = 9\<rparr>,
     \<lparr>range_min = Num 8.8, range_max = Num 9.1, score = 8\<rparr>,
     \<lparr>range_min = Num 9.2, range_max = Num 9.6, score = 7\<rparr>,
     \<lparr>range_min = Num 9.7, range_max = Num 10.2, score = 6\<rparr>,
     \<lparr>range_min = Num 10.3, range_max = Num 10.9, score = 5\<rparr>,
     \<lparr>range_min = Num 11.0, range_max = Num 11.6, score = 4\<rparr>,
     \<lparr>range_min = Num 11.7, range_max = Num 12.4, score = 3\<rparr>,
     \<lparr>range_min = Num 12.5, range_max = Num 13.2, score = 2\<rparr>,
     \<lparr>range_min = Num 13.3, range_max = PosInfinity, score = 1\<rparr>]"

definition scoringTables_longjump_Boy :: "ScoreRange list" where
  "scoringTables_longjump_Boy =
    [\<lparr>range_min = Num 192, range_max = PosInfinity, score = 10\<rparr>,
     \<lparr>range_min = Num 180, range_max = Num 191, score = 9\<rparr>,
     \<lparr>range_min = Num 168, range_max = Num 179, score = 8\<rparr>,
     \<lparr>range_min = Num 156, range_max = Num 167, score = 7\<rparr>,
     \<lparr>range_min = Num 143, range_max = Num 155, score = 6\<rparr>,
     \<lparr>range_min = Num 130, range_max = Num 142, score = 5\<rparr>,
     \<lparr>range_min = Num 117, range_max = Num 129, score = 4\<rparr>,
     \<lparr>range_min = Num 105, range_max = Num 116, score = 3\<rparr>,
     \<lparr>range_min = Num 93, range_max = Num 104, score = 2\<rparr>,
     \<lparr>range_min = Num 1, range_max = Num 92, score = 1\<rparr>]"

definition scoringTables_longjump_Girl :: "ScoreRange list" where
  "scoringTables_longjump_Girl =
    [\<lparr>range_min = Num 181, range_max = PosInfinity, score = 10\<rparr>,
     \<lparr>range_min = Num 170, range_max = Num 180, score = 9\<rparr>,
     \<lparr>range_min = Num 160, range_max = Num 169, score = 8\<rparr>,
     \<lparr>range_min = Num 147, range_max = Num 159, score = 7\<rparr>,
     \<lparr>range_min = Num 134, range_max = Num 146, score = 6\<rparr>,
     \<lparr>range_min = Num 121, range_max = Num 133, score = 5\<rparr>,
     \<lparr>range_min = Num 109, range_max = Num 120, score = 4\<rparr>,
     \<lparr>range_min = Num 98, range_max = Num 108, score = 3\<rparr>,
     \<lparr>range_min = Num 85, range_max = Num 97, score = 2\<rparr>,
     \<lparr>range_min = Num 1, range_max = Num 84, score = 1\<rparr>]"

definition scoringTables_softballthrowing_Boy :: "ScoreRange list" where
  "scoringTables_softballthrowing_Boy =
    [\<lparr>range_min = Num 40, range_max = PosInfinity, score = 10\<rparr>,
     \<lparr>range_min = Num 35, range_max = Num 39, score = 9\<rparr>,
     \<lparr>range_min = Num 30, range_max = Num 34, score = 8\<rparr>,
     \<lparr>range_min = Num 24, range_max = Num 29, score = 7\<rparr>,
     \<lparr>range_min = Num 18, range_max = Num 23, score = 6\<rparr>,
     \<lparr>range_min = Num 13, range_max = Num 17, score = 5\<rparr>,
     \<lparr>range_min = Num 10, range_max = Num 12, score = 4\<rparr>,
     \<lparr>range_min = Num 7, range_max = Num 9, score = 3\<rparr>,
     \<lparr>range_min = Num 4, range_max = Num 6, score = 2\<rparr>,
     \<lparr>range_min = Num 1, range_max = Num 3, score = 1\<rparr>]"

definition scoringTables_softballthrowing_Girl :: "ScoreRange list" where
  "scoringTables_softballthrowing_Girl =
    [\<lparr>range_min = Num 25, range_max = PosInfinity, score = 10\<rparr>,
     \<lparr>range_min = Num 21, range_max = Num 24, score = 9\<rparr>,
     \<lparr>range_min = Num 17, range_max = Num 20, score = 8\<rparr>,
     \<lparr>range_min = Num 14, range_max = Num 16, score = 7\<rparr>,
     \<lparr>range_min = Num 11, range_max = Num 13, score = 6\<rparr>,
     \<lparr>range_min = Num 8, range_max = Num 10, score = 5\<rparr>,
     \<lparr>range_min = Num 6, range_max = Num 7, score = 4\<rparr>,
     \<lparr>range_min = Num 4, range_max = Num 5, score = 3\<rparr>,
     \<lparr>range_min = Num 2, range_max = Num 3, score = 2\<rparr>,
     \<lparr>range_min = Num 1, range_max = Num 1, score = 1\<rparr>]"

text \<open>
  \<open>scoringTables[component]\<close> is \<open>undefined\<close> for a component that is not a key (for the
  names that \<open>Object.prototype\<close> answers, the next read \<open>[gender]\<close> is \<open>undefined\<close>).
\<close>

definition scoringTables_entries :: "(string \<times> (gender \<Rightarrow> ScoreRange list)) list" where
  "scoringTables_entries =
    [(''gripStrength'', \<lambda>gender. case gender of Boy \<Rightarrow> scoringTables_gripStrength_Boy | Girl \<Rightarrow> scoringTables_gripStrength_Girl),
     (''situps'', \<lambda>gender. case gender of Boy \<Rightarrow> scoringTables_situps_Boy | Girl \<Rightarrow> scoringTables_situps_Girl),
     (''seatedtoetouch'', \<lambda>gender. case gender of Boy \<Rightarrow> scoringTables_seatedtoetouch_Boy | Girl \<Rightarrow> scoringTables_seatedtoetouch_Girl),
     (''sidesteps'', \<lambda>gender. case gender of Boy \<Rightarrow> scoringTables_sidesteps_Boy | Girl \<Rightarrow> scoringTables_sidesteps_Girl),
     (''20mshuttleruns'', \<lambda>gender. case gender of Boy \<Rightarrow> scoringTables_shuttleruns_20m_Boy | Girl \<Rightarrow> scoringTables_shuttleruns_20m_Girl),
     (''50msprint'', \<lambda>gender. case gender of Boy \<Rightarrow> scoringTables_sprint_50m_Boy | Girl \<Rightarrow> scoringTables_sprint_50m_Girl),
     (''longjump'', \<lambda>gender. case gender of Boy \<Rightarrow> scoringTables_longjump_Boy | Girl \<Rightarrow> scoringTables_longjump_Girl),
     (''softballthrowing'', \<lambda>gender. case gender of Boy \<Rightarrow> scoringTables_softballthrowing_Boy | Girl \<Rightarrow> scoringTables_softballthrowing_Girl)]"

definition scoringTables :: "string \<Rightarrow> (gender \<Rightarrow> ScoreRange list) option" where
  "scoringTables = map_of scoringTables_entries"

subsection \<open>calculateScore\<close>

text \<open>
  \<^verbatim>\<open>const truncateToOneDecimal = (num: number) => Math.floor(num * 10) / 10;\<close>
  Here the product and the quotient are exact, as they are for integer measurements.
  The same function with the rounding of binary64 arithmetic, which matters for sprint
  times with decimals, is \<open>truncateToOneDecimal_binary64\<close> below.
\<close>

definition truncateToOneDecimal :: "number \<Rightarrow> number" where
  "truncateToOneDecimal num = divide10 (Math_floor (times10 num))"

text \<open>
  \<^verbatim>\<open>const ranges: ScoreRange[] = scoringTables[component][gender];
  if (component === '50msprint') {
    const truncatedFirstTry = truncateToOneDecimal(firstTry);
    const foundRange = ranges.find(range =>
      truncatedFirstTry <= range.max && truncatedFirstTry >= range.min);
    return foundRange ? foundRange.score : 0;
  } else {
    const result = Math.max(firstTry, secondTry);
    const foundRange = ranges.find(range => result >= range.min && result <= range.max);
    return foundRange ? foundRange.score : 0;
  }\<close>
  For a component that is not a key of the tables the first line, or the call of
  \<open>find\<close> on \<open>undefined\<close>, throws a TypeError.
\<close>

definition calculateScore :: "string \<Rightarrow> gender \<Rightarrow> number \<Rightarrow> number \<Rightarrow> js_error + int" where
  "calculateScore component gender firstTry secondTry =
    (case scoringTables component of
       None \<Rightarrow> Inl TypeError
     | Some byGender \<Rightarrow>
        (let ranges = byGender gender in
         if component = ''50msprint''
         then (let truncatedFirstTry = truncateToOneDecimal firstTry;
                   foundRange = find (\<lambda>range. number_le truncatedFirstTry (range_max range)
                                      \<and> number_ge truncatedFirstTry (range_min range)) ranges
               in Inr (case foundRange of Some r \<Rightarrow> score r | None \<Rightarrow> 0))
         else (let result = Math_max [firstTry, secondTry];
                   foundRange = find (\<lambda>range. number_ge result (range_min range)
                                      \<and> number_le result (range_max range)) ranges
               in Inr (case foundRange of Some r \<Rightarrow> score r | None \<Rightarrow> 0))))"

text \<open>
  The value that \<open>calculateScore\<close> looks up in the table (\<open>truncatedFirstTry\<close> in the
  sprint branch, \<open>result\<close> in the other), and the test of the two \<open>find\<close> callbacks: the
  value lies in the closed interval of the range.
\<close>

definition scoredValue :: "string \<Rightarrow> number \<Rightarrow> number \<Rightarrow> number" where
  "scoredValue component firstTry secondTry =
    (if component = ''50msprint'' then truncateToOneDecimal firstTry
     else Math_max [firstTry, secondTry])"

definition in_range :: "number \<Rightarrow> ScoreRange \<Rightarrow> bool" where
  "in_range v r = (number_ge v (range_min r) \<and> number_le v (range_max r))"

text \<open>The sixteen tables, and the test that two ranges have no value in common.\<close>

definition all_tables :: "ScoreRange list list" where
  "all_tables =
    [scoringTables_gripStrength_Boy, scoringTables_gripStrength_Girl,
     scoringTables_situps_Boy, scoringTables_situps_Girl,
     scoringTables_seatedtoetouch_Boy, scoringTables_seatedtoetouch_Girl,
     scoringTables_sidesteps_Boy, scoringTables_sidesteps_Girl,
     scoringTables_shuttleruns_20m_Boy, scoringTables_shuttleruns_20m_Girl,
     scoringTables_sprint_50m_Boy, scoringTables_sprint_50m_Girl,
     scoringTables_longjump_Boy, scoringTables_longjump_Girl,
     scoringTables_softballthrowing_Boy, scoringTables_softballthrowing_Girl]"

definition separated :: "ScoreRange \<Rightarrow> ScoreRange \<Rightarrow> bool" where
  "separated r r' =
    (\<not> number_le (range_min r) (range_max r') \<or> \<not> number_le (range_min r') (range_max r))"



section \<open>The sprint branch in binary64 arithmetic\<close>









section \<open>Student records and reports (PhFitnessRecord.tsx)\<close>

subsection \<open>Students\<close>

text \<open>
  \<^verbatim>\<open>interface Student { enname: string; jpname: string; class: string; grade: string;
    gender: 'Boy' | 'Girl'; '1sttry': Record<string, number>; '2ndtry': Record<string, number>; }\<close>
  The field \<open>class\<close> is \<open>student_class\<close>, and the two trial records are \<open>try_1st\<close> and
  \<open>try_2nd\<close>: maps from a component key to a number, \<open>None\<close> where the key is absent.
\<close>

record Student =
  enname :: string
  jpname :: string
  student_class :: string
  grade :: string
  gender :: gender
  try_1st :: "string \<Rightarrow> number option"
  try_2nd :: "string \<Rightarrow> number option"

text \<open>
  \<^verbatim>\<open>const componentOrder: ComponentOrder = { "gripStrength": "Grip Strength", ... }\<close>
  None of the keys is an array index, so \<open>Object.keys\<close> lists them in the order written.
\<close>

definition componentOrder_entries :: "(string \<times> string) list" where
  "componentOrder_entries =
    [(''gripStrength'', ''Grip Strength''),
     (''situps'', ''Sit-ups''),
     (''seatedtoetouch'', ''Seated Toe Touch''),
     (''sidesteps'', ''Side Steps''),
     (''20mshuttleruns'', ''20 m Shuttle Runs''),
     (''50msprint'', ''50 m Sprint''),
     (''longjump'', ''Long Jump''),
     (''softballthrowing'', ''Softball Throwing'')]"

definition componentOrder_keys :: "string list" where
  "componentOrder_keys = map fst componentOrder_entries"

definition componentOrder :: "string \<Rightarrow> string" where
  "componentOrder key = (case map_of componentOrder_entries key of Some label \<Rightarrow> label | None \<Rightarrow> [])"

definition getUnitForComponent :: "string \<Rightarrow> string" where
  "getUnitForComponent component =
    (if component = ''50msprint'' then ''seconds''
     else if component = ''longjump'' \<or> component = ''seatedtoetouch'' then ''cm''
     else if component = ''softballthrowing'' then ''m''
     else ''times'')"

text \<open>
  \<open>keys.forEach(callback)\<close> with a callback that updates local variables: the variables
  are a state that each call returns updated, and an exception ends the loop.
\<close>

fun forEach :: "('k \<Rightarrow> 's \<Rightarrow> js_error + 's) \<Rightarrow> 'k list \<Rightarrow> 's \<Rightarrow> js_error + 's" where
  "forEach callback [] s = Inr s"
| "forEach callback (k # ks) s =
    (case callback k s of Inl e \<Rightarrow> Inl e | Inr s' \<Rightarrow> forEach callback ks s')"

text \<open>The decimal digits of a natural number, as \<open>i + ' '\<close> and \<open>`student${i}`\<close> print it.\<close>

fun decimal :: "nat \<Rightarrow> string" where
  "decimal n = (if n < 10 then [char_of (48 + n)] else decimal (n div 10) @ [char_of (48 + n mod 10)])"

declare decimal.simps [simp del]

text \<open>\<open>s.slice(1, -1)\<close> and \<open>s.slice(-1)\<close>.\<close>

definition slice_1_minus1 :: "string \<Rightarrow> string" where
  "slice_1_minus1 s = butlast (drop 1 s)"

definition slice_minus1 :: "string \<Rightarrow> string" where
  "slice_minus1 s = drop (length s - 1) s"

subsection \<open>Worksheets\<close>

text \<open>
  The spreadsheet library is not part of the program. A worksheet is the sequence of the
  calls made on it, in order: a value or a style assigned to the cell at a reference,
  \<open>mergeCells\<close>, \<open>addRow\<close>, \<open>eachCell\<close> on the row just added with the styling function,
  and a column width. A cell value is a string, a number as the program holds it
  (\<open>undefined\<close> is \<open>None\<close>), or the template literal \<open>`${x}`\<close> of such a number, whose
  digits are not modelled.
\<close>

record Style =
  font_size :: nat
  alignment_horizontal :: string
  alignment_vertical :: string
  alignment_wrapText :: "bool option"
  border_top :: "string option"
  border_left :: "string option"
  border_bottom :: "string option"
  border_right :: "string option"

datatype cell_value = Text string | Value "number option" | Template "number option"

datatype sheet_call =
    SetCellValue string cell_value
  | SetCellStyle string Style
  | MergeCells string
  | AddRow "cell_value list"
  | EachCell "nat \<Rightarrow> Style"
  | SetColumnWidth string rat

record worksheet =
  sheet_name :: string
  calls :: "sheet_call list"

definition setManualColumnWidths :: "sheet_call list" where
  "setManualColumnWidths =
    [SetColumnWidth ''A'' 13.5,
     SetColumnWidth ''B'' 7.67,
     SetColumnWidth ''C'' 6,
     SetColumnWidth ''D'' 4.22,
     SetColumnWidth ''E'' 6.78,
     SetColumnWidth ''F'' 7.5,
     SetColumnWidth ''G'' 4.00,
     SetColumnWidth ''H'' 8,
     SetColumnWidth ''I'' 15,
     SetColumnWidth ''J'' 16]"

subsection \<open>exportGradeToIndividualWorkbooks\<close>

definition individual_headerStyle :: Style where
  "individual_headerStyle =
    \<lparr>font_size = 22, alignment_horizontal = ''center'', alignment_vertical = ''middle'',
     alignment_wrapText = None,
     border_top = None, border_left = None, border_bottom = Some ''thick'', border_right = None\<rparr>"

definition individual_dataStyle :: Style where
  "individual_dataStyle =
    \<lparr>font_size = 14, alignment_horizontal = ''center'', alignment_vertical = ''middle'',
     alignment_wrapText = Some True,
     border_top = Some ''thin'', border_left = Some ''thin'', border_bottom = Some ''thin'',
     border_right = Some ''thin''\<rparr>"

definition individual_leftAlignedDataStyle :: Style where
  "individual_leftAlignedDataStyle =
    \<lparr>font_size = 14, alignment_horizontal = ''left'', alignment_vertical = ''middle'',
     alignment_wrapText = Some True,
     border_top = Some ''thin'', border_left = Some ''thin'', border_bottom = Some ''thin'',
     border_right = Some ''thin''\<rparr>"

definition individual_applyStyleToCell :: "nat \<Rightarrow> Style" where
  "individual_applyStyleToCell colNumber =
    (if colNumber = 6 \<or> colNumber = 9 then individual_leftAlignedDataStyle else individual_dataStyle)"

text \<open>The header rows and the column headers of one student's sheet; \<open>i\<close> is the ordinal.\<close>

definition individual_header :: "nat \<Rightarrow> Student \<Rightarrow> sheet_call list" where
  "individual_header i student =
    [SetCellValue ''A1'' (Text ''Physical Fitness Test Results''),
     SetCellStyle ''A1'' individual_headerStyle,
     MergeCells ''A1:J1'',
     SetCellValue ''A2'' (Text ''Grade''),
     SetCellStyle ''A2'' individual_headerStyle,
     SetCellValue ''B2'' (Text (slice_1_minus1 (student_class student))),
     SetCellStyle ''B2'' individual_headerStyle,
     SetCellValue ''C2'' (Text ''Class''),
     SetCellStyle ''C2'' individual_headerStyle,
     SetCellStyle ''D2'' individual_headerStyle,
     MergeCells ''C2:D2'',
     SetCellValue ''E2'' (Text (slice_minus1 (student_class student))),
     SetCellStyle ''E2'' individual_headerStyle,
     SetCellStyle ''G2'' individual_headerStyle,
     SetCellValue ''F2'' (Text ''Name''),
     SetCellStyle ''F2'' individual_headerStyle,
     MergeCells ''G2:F2'',
     SetCellValue ''H2'' (Text (decimal i @ '' '' @ enname student)),
     SetCellStyle ''H2'' individual_headerStyle,
     MergeCells ''H2:J2'',
     AddRow [Text '''', Text '''', Text ''''],
     AddRow [Text ''Component'', Text '''', Text ''Record'', Text '''', Text '''', Text '''',
             Text '''', Text '''', Text '''', Text ''Score''],
     EachCell individual_applyStyleToCell,
     MergeCells ''A4:B4'',
     MergeCells ''C4:I4'']"

text \<open>
  The callback of \<open>Object.keys(componentOrder).forEach\<close>: the state is the calls made
  on the worksheet so far and \<open>totalScore\<close>.
\<close>

definition individual_component ::
  "Student \<Rightarrow> string \<Rightarrow> sheet_call list \<times> int \<Rightarrow> js_error + sheet_call list \<times> int" where
  "individual_component student key st =
    (let (ws, totalScore) = st in
     if key = ''gripStrength'' then
       (let firstTryR = try_1st student ''gripstrR'';
            secondTryR = nullish (try_2nd student ''gripstrR'') firstTryR;
            firstTryL = try_1st student ''gripstrL'';
            secondTryL = nullish (try_2nd student ''gripstrL'') firstTryL;
            maxGripStrength = Math_max [ToNumber firstTryR, ToNumber secondTryR,
                                        ToNumber firstTryL, ToNumber secondTryL]
        in case calculateScore ''gripStrength'' (gender student) maxGripStrength (Num 0) of
             Inl e \<Rightarrow> Inl e
           | Inr sc \<Rightarrow> Inr
              (ws @
               [AddRow [Text ''Grip Strength'', Text '''', Text ''R'', Text ''1:'', Template firstTryR,
                        Text ''kg'', Text ''2:'', Template secondTryR, Text ''kg'',
                        Value (Some (Num (of_int sc)))],
                EachCell individual_applyStyleToCell,
                AddRow [Text ''Grip Strength'', Text '''', Text ''L'', Text ''1:'', Template firstTryL,
                        Text ''kg'', Text ''2:'', Template secondTryL, Text ''kg'',
                        Value (Some (Num (of_int sc)))],
                EachCell individual_applyStyleToCell,
                AddRow [Text '''', Text '''', Text ''Avg: '', Template (Some maxGripStrength),
                        Text '''', Text '''', Text '''', Text '''', Text ''kg'', Text ''''],
                EachCell individual_applyStyleToCell,
                MergeCells ''A5:B7'',
                MergeCells ''D7:H7'',
                MergeCells ''J5:J7''],
               totalScore + sc))
     else if key = ''situps'' \<or> key = ''50msprint'' \<or> key = ''20mshuttleruns'' then
       (let firstTry = try_1st student key
        in case calculateScore key (gender student) (ToNumber firstTry) (Num 0) of
             Inl e \<Rightarrow> Inl e
           | Inr sc \<Rightarrow> Inr
              (ws @
               (if key = ''situps'' then
                  [AddRow [Text (componentOrder key), Text '''', Template firstTry, Text '''',
                           Text '''', Text '''', Text '''', Text '''',
                           Text (getUnitForComponent key), Value (Some (Num (of_int sc)))],
                   EachCell individual_applyStyleToCell,
                   MergeCells ''A8:B8'',
                   MergeCells ''C8:H8'']
                else []) @
               (if key = ''50msprint'' then
                  [AddRow [Text (componentOrder key), Text '''', Template firstTry, Text '''',
                           Text '''', Text '''', Text '''', Text (getUnitForComponent key),
                           Text '''', Value (Some (Num (of_int sc)))],
                   EachCell individual_applyStyleToCell,
                   MergeCells ''A12:B12'',
                   MergeCells ''C12:G12'',
                   MergeCells ''H12:I12'',
                   SetCellStyle ''H12'' individual_leftAlignedDataStyle]
                else []) @
               (if key = ''20mshuttleruns'' then
                  [AddRow [Text (componentOrder key), Text '''', Template firstTry, Text '''',
                           Text '''', Text '''', Text '''', Text '''',
                           Text (getUnitForComponent key), Value (Some (Num (of_int sc)))],
                   EachCell individual_applyStyleToCell,
                   MergeCells ''A11:B11'',
                   MergeCells ''C11:H11'']
                else []),
               totalScore + sc))
     else
       (let firstTry = try_1st student key;
            secondTry = nullish (try_2nd student key) firstTry
        in case calculateScore key (gender student) (ToNumber firstTry) (ToNumber secondTry) of
             Inl e \<Rightarrow> Inl e
           | Inr sc \<Rightarrow> Inr
              (ws @
               [AddRow [Text (componentOrder key), Text '''', Text '''', Text ''1:'', Value firstTry,
                        Text (getUnitForComponent key), Text ''2:'', Value secondTry,
                        Text (getUnitForComponent key), Value (Some (Num (of_int sc)))],
                EachCell individual_applyStyleToCell] @
               (if key = ''seatedtoetouch'' then [MergeCells ''A9:B9''] else []) @
               (if key = ''sidesteps'' then [MergeCells ''A10:B10''] else []) @
               (if key = ''longjump'' then [MergeCells ''A13:B13''] else []) @
               (if key = ''softballthrowing'' then [MergeCells ''A14:B14''] else []),
               totalScore + sc)))"

text \<open>
  The calls made on the worksheet of one student: the header, the component rows, the
  total score and the grade, the column widths. \<open>determineGrade\<close> can throw.
\<close>

definition individual_student :: "nat \<Rightarrow> Student \<Rightarrow> js_error + sheet_call list" where
  "individual_student i student =
    (case forEach (individual_component student) componentOrder_keys (individual_header i student, 0) of
       Inl e \<Rightarrow> Inl e
     | Inr (ws, totalScore) \<Rightarrow>
        (case determineGrade totalScore (student_class student) of
           Inl e \<Rightarrow> Inl e
         | Inr letter \<Rightarrow> Inr
            (ws @
             [AddRow [Text ''Total Score'', Text '''', Text '''', Text '''', Text '''', Text '''',
                      Text '''', Text '''', Text '''', Value (Some (Num (of_int totalScore)))],
              EachCell individual_applyStyleToCell,
              MergeCells ''A15:I15'',
              AddRow [Text ''Grade'', Text '''', Text '''', Text '''', Text '''', Text '''',
                      Text '''', Text '''', Text '''', Text letter],
              EachCell individual_applyStyleToCell,
              MergeCells ''A16:I16''] @
             setManualColumnWidths)))"

text \<open>
  \<open>exportGradeToIndividualWorkbooks\<close>: one workbook per student, with one worksheet named
  \<open>'Grade ' + student.class.slice(1, -1)\<close>, stored in the archive as
  \<open>`${i} ${student.enname}.xlsx`\<close>; the archive is saved as
  \<open>`Grade_${selectedGrade}_Reports.zip`\<close>. The loop runs from the counter \<open>i\<close>; an
  exception leaves the function before anything is saved.
\<close>

fun individual_loop :: "nat \<Rightarrow> Student list \<Rightarrow> js_error + (string \<times> worksheet) list" where
  "individual_loop i [] = Inr []"
| "individual_loop i (student # students) =
    (case individual_student i student of
       Inl e \<Rightarrow> Inl e
     | Inr ws \<Rightarrow>
        (case individual_loop (i + 1) students of
           Inl e \<Rightarrow> Inl e
         | Inr files \<Rightarrow> Inr
            ((decimal i @ '' '' @ enname student @ ''.xlsx'',
              \<lparr>sheet_name = ''Grade '' @ slice_1_minus1 (student_class student), calls = ws\<rparr>)
             # files)))"

definition exportGradeToIndividualWorkbooks ::
  "Student list \<Rightarrow> string \<Rightarrow> js_error + (string \<times> (string \<times> worksheet) list)" where
  "exportGradeToIndividualWorkbooks students selectedGrade =
    (case individual_loop 1 students of
       Inl e \<Rightarrow> Inl e
     | Inr files \<Rightarrow> Inr (''Grade_'' @ selectedGrade @ ''_Reports.zip'', files))"

subsection \<open>exportGradeToSingleWorkbook\<close>

definition single_headerStyle :: Style where
  "single_headerStyle =
    \<lparr>font_size = 22, alignment_horizontal = ''center'', alignment_vertical = ''middle'',
     alignment_wrapText = None,
     border_top = None, border_left = None, border_bottom = Some ''thick'', border_right = None\<rparr>"

definition single_dataStyle :: Style where
  "single_dataStyle =
    \<lparr>font_size = 14, alignment_horizontal = ''center'', alignment_vertical = ''middle'',
     alignment_wrapText = Some True,
     border_top = Some ''thin'', border_left = Some ''thin'', border_bottom = Some ''thin'',
     border_right = Some ''thin''\<rparr>"

definition single_leftAlignedDataStyle :: Style where
  "single_leftAlignedDataStyle =
    \<lparr>font_size = 14, alignment_horizontal = ''left'', alignment_vertical = ''middle'',
     alignment_wrapText = Some True,
     border_top = Some ''thin'', border_left = Some ''thin'', border_bottom = Some ''thin'',
     border_right = Some ''thin''\<rparr>"

definition single_applyStyleToCell :: "nat \<Rightarrow> Style" where
  "single_applyStyleToCell colNumber =
    (if colNumber = 6 \<or> colNumber = 9 then single_leftAlignedDataStyle else single_dataStyle)"

text \<open>The header rows and the column headers of one student's sheet; \<open>i\<close> is the ordinal.\<close>

definition single_header :: "nat \<Rightarrow> Student \<Rightarrow> sheet_call list" where
  "single_header i student =
    [SetCellValue ''A1'' (Text ''Physical Fitness Test Results''),
     SetCellStyle ''A1'' single_headerStyle,
     MergeCells ''A1:J1'',
     SetCellValue ''A2'' (Text ''Grade''),
     SetCellStyle ''A2'' single_headerStyle,
     SetCellValue ''B2'' (Text (slice_1_minus1 (student_class student))),
     SetCellStyle ''B2'' single_headerStyle,
     SetCellValue ''C2'' (Text ''Class''),
     SetCellStyle ''C2'' single_headerStyle,
     SetCellStyle ''D2'' single_headerStyle,
     MergeCells ''C2:D2'',
     SetCellValue ''E2'' (Text (slice_minus1 (student_class student))),
     SetCellStyle ''E2'' single_headerStyle,
     SetCellStyle ''G2'' single_headerStyle,
     SetCellValue ''F2'' (Text ''Name''),
     SetCellStyle ''F2'' single_headerStyle,
     MergeCells ''G2:F2'',
     SetCellValue ''H2'' (Text (decimal i @ '' '' @ enname student)),
     SetCellStyle ''H2'' single_headerStyle,
     MergeCells ''H2:J2'',
     AddRow [Text '''', Text '''', Text ''''],
     AddRow [Text ''Component'', Text '''', Text ''Record'', Text '''', Text '''', Text '''',
             Text '''', Text '''', Text '''', Text ''Score''],
     EachCell single_applyStyleToCell,
     MergeCells ''A4:B4'',
     MergeCells ''C4:I4'']"

text \<open>
  The callback of \<open>Object.keys(componentOrder).forEach\<close>: the state is the calls made
  on the worksheet so far and \<open>totalScore\<close>.
\<close>

definition single_component ::
  "Student \<Rightarrow> string \<Rightarrow> sheet_call list \<times> int \<Rightarrow> js_error + sheet_call list \<times> int" where
  "single_component student key st =
    (let (ws, totalScore) = st in
     if key = ''gripStrength'' then
       (let firstTryR = try_1st student ''gripstrR'';
            secondTryR = nullish (try_2nd student ''gripstrR'') firstTryR;
            firstTryL = try_1st student ''gripstrL'';
            secondTryL = nullish (try_2nd student ''gripstrL'') firstTryL;
            maxGripStrength = Math_max [ToNumber firstTryR, ToNumber secondTryR,
                                        ToNumber firstTryL, ToNumber secondTryL]
        in case calculateScore ''gripStrength'' (gender student) maxGripStrength (Num 0) of
             Inl e \<Rightarrow> Inl e
           | Inr sc \<Rightarrow> Inr
              (ws @
               [AddRow [Text ''Grip Strength'', Text '''', Text ''R'', Text ''1:'', Template firstTryR,
                        Text ''kg'', Text ''2:'', Template secondTryR, Text ''kg'',
                        Value (Some (Num (of_int sc)))],
                EachCell single_applyStyleToCell,
                AddRow [Text ''Grip Strength'', Text '''', Text ''L'', Text ''1:'', Template firstTryL,
                        Text ''kg'', Text ''2:'', Template secondTryL, Text ''kg'',
                        Value (Some (Num (of_int sc)))],
                EachCell single_applyStyleToCell,
                AddRow [Text '''', Text '''', Text ''Avg: '', Template (Some maxGripStrength),
                        Text '''', Text '''', Text '''', Text '''', Text ''kg'', Text ''''],
                EachCell single_applyStyleToCell,
                MergeCells ''A5:B7'',
                MergeCells ''D7:H7'',
                MergeCells ''J5:J7''],
               totalScore + sc))
     else if key = ''situps'' \<or> key = ''50msprint'' \<or> key = ''20mshuttleruns'' then
       (let firstTry = try_1st student key
        in case calculateScore key (gender student) (ToNumber firstTry) (Num 0) of
             Inl e \<Rightarrow> Inl e
           | Inr sc \<Rightarrow> Inr
              (ws @
               (if key = ''situps'' then
                  [AddRow [Text (componentOrder key), Text '''', Template firstTry, Text '''',
                           Text '''', Text '''', Text '''', Text '''',
                           Text (getUnitForComponent key), Value (Some (Num (of_int sc)))],
                   EachCell single_applyStyleToCell,
                   MergeCells ''A8:B8'',
                   MergeCells ''C8:H8'']
                else []) @
               (if key = ''50msprint'' then
                  [AddRow [Text (componentOrder key), Text '''', Template firstTry, Text '''',
                           Text '''', Text '''', Text '''', Text (getUnitForComponent key),
                           Text '''', Value (Some (Num (of_int sc)))],
                   EachCell single_applyStyleToCell,
                   MergeCells ''A12:B12'',
                   MergeCells ''C12:G12'',
                   MergeCells ''H12:I12'',
                   SetCellStyle ''H12'' single_leftAlignedDataStyle]
                else []) @
               (if key = ''20mshuttleruns'' then
                  [AddRow [Text (componentOrder key), Text '''', Template firstTry, Text '''',
                           Text '''', Text '''', Text '''', Text '''',
                           Text (getUnitForComponent key), Value (Some (Num (of_int sc)))],
                   EachCell single_applyStyleToCell,
                   MergeCells ''A11:B11'',
                   MergeCells ''C11:H11'']
                else []),
               totalScore + sc))
     else
       (let firstTry = try_1st student key;
            secondTry = nullish (try_2nd student key) firstTry
        in case calculateScore key (gender student) (ToNumber firstTry) (ToNumber secondTry) of
             Inl e \<Rightarrow> Inl e
           | Inr sc \<Rightarrow> Inr
              (ws @
               [AddRow [Text (componentOrder key), Text '''', Text '''', Text ''1:'', Value firstTry,
                        Text (getUnitForComponent key), Text ''2:'', Value secondTry,
                        Text (getUnitForComponent key), Value (Some (Num (of_int sc)))],
                EachCell single_applyStyleToCell] @
               (if key = ''seatedtoetouch'' then [MergeCells ''A9:B9''] else []) @
               (if key = ''sidesteps'' then [MergeCells ''A10:B10''] else []) @
               (if key = ''longjump'' then [MergeCells ''A13:B13''] else []) @
               (if key = ''softballthrowing'' then [MergeCells ''A14:B14''] else []),
               totalScore + sc)))"

text \<open>
  The calls made on the worksheet of one student: the header, the component rows, the
  total score and the grade, the column widths. \<open>determineGrade\<close> can throw.
\<close>

definition single_student :: "nat \<Rightarrow> Student \<Rightarrow> js_error + sheet_call list" where
  "single_student i student =
    (case forEach (single_component student) componentOrder_keys (single_header i student, 0) of
       Inl e \<Rightarrow> Inl e
     | Inr (ws, totalScore) \<Rightarrow>
        (case determineGrade totalScore (student_class student) of
           Inl e \<Rightarrow> Inl e
         | Inr letter \<Rightarrow> Inr
            (ws @
             [AddRow [Text ''Total Score'', Text '''', Text '''', Text '''', Text '''', Text '''',
                      Text '''', Text '''', Text '''', Value (Some (Num (of_int totalScore)))],
              EachCell single_applyStyleToCell,
              MergeCells ''A15:I15'',
              AddRow [Text ''Grade'', Text '''', Text '''', Text '''', Text '''', Text '''',
                      Text '''', Text '''', Text '''', Text letter],
              EachCell single_applyStyleToCell,
              MergeCells ''A16:I16''] @
             setManualColumnWidths)))"

text \<open>
  \<open>exportGradeToSingleWorkbook\<close>: one workbook, with one worksheet per student named
  \<open>`${index + 1} ${student.enname}`\<close>, saved as \<open>`Grade_${selectedGrade}_Reports.xlsx`\<close>.
  \<open>index\<close> is the position in \<open>students\<close> and \<open>i\<close> the counter that starts at 1.
\<close>

fun single_loop :: "nat \<Rightarrow> nat \<Rightarrow> Student list \<Rightarrow> js_error + worksheet list" where
  "single_loop i index [] = Inr []"
| "single_loop i index (student # students) =
    (case single_student i student of
       Inl e \<Rightarrow> Inl e
     | Inr ws \<Rightarrow>
        (case single_loop (i + 1) (index + 1) students of
           Inl e \<Rightarrow> Inl e
         | Inr sheets \<Rightarrow> Inr
            (\<lparr>sheet_name = decimal (index + 1) @ '' '' @ enname student, calls = ws\<rparr>
             # sheets)))"

definition exportGradeToSingleWorkbook ::
  "Student list \<Rightarrow> string \<Rightarrow> js_error + (string \<times> worksheet list)" where
  "exportGradeToSingleWorkbook students selectedGrade =
    (case single_loop 1 0 students of
       Inl e \<Rightarrow> Inl e
     | Inr sheets \<Rightarrow> Inr (''Grade_'' @ selectedGrade @ ''_Reports.xlsx'', sheets))"

subsection \<open>The edit view\<close>

text \<open>
  The rows that \<open>renderEditView\<close> returns, without their markup: the grip-strength row
  (the four inputs, the value shown after \<open>Avg:\<close>, the score), one row per other
  component (label, the inputs shown, unit, score), the total score and the grade.
\<close>

datatype edit_row =
    GripRow "number option" "number option" "number option" "number option" number int
  | ComponentRow string "number option list" string int
  | TotalScoreRow int
  | GradeRow string

text \<open>
  \<^verbatim>\<open>const maxGripStrength = Math.max(
      student['1sttry']['gripstrR'], student['2ndtry']['gripstrR'],
      student['1sttry']['gripstrL'], student['2ndtry']['gripstrL']);
  const score = calculateScore("gripStrength", student.gender, maxGripStrength, 0);\<close>
\<close>

definition renderGripStrength :: "Student \<Rightarrow> js_error + edit_row" where
  "renderGripStrength student =
    (let maxGripStrength = Math_max
           [ToNumber (try_1st student ''gripstrR''), ToNumber (try_2nd student ''gripstrR''),
            ToNumber (try_1st student ''gripstrL''), ToNumber (try_2nd student ''gripstrL'')]
     in case calculateScore ''gripStrength'' (gender student) maxGripStrength (Num 0) of
          Inl e \<Rightarrow> Inl e
        | Inr sc \<Rightarrow> Inr
           (GripRow (try_1st student ''gripstrR'') (try_2nd student ''gripstrR'')
                    (try_1st student ''gripstrL'') (try_2nd student ''gripstrL'')
                    maxGripStrength sc))"

text \<open>The score shown in a row, as \<open>renderGripStrength(student).props.children[2].props.children\<close>.\<close>

fun row_score :: "edit_row \<Rightarrow> int" where
  "row_score (GripRow r1 r2 l1 l2 m sc) = sc"
| "row_score (ComponentRow label inputs unit sc) = sc"
| "row_score (TotalScoreRow t) = t"
| "row_score (GradeRow letter) = 0"

text \<open>
  The callback of \<open>Object.keys(componentOrder).forEach\<close> in \<open>renderEditView\<close>: the state
  is \<open>componentRows\<close> and \<open>totalScore\<close>.
  \<^verbatim>\<open>if (component !== "gripStrength") {
    const firstTry = student['1sttry'][component];
    const secondTry = student['2ndtry'][component] ?? firstTry;
    const score = calculateScore(component, student.gender, firstTry, secondTry);
    totalScore += score;
    componentRows.push(...);
  }\<close>
  The row shows one input for situps, 20mshuttleruns and 50msprint, two inputs otherwise.
\<close>

definition renderEditView_component ::
  "Student \<Rightarrow> string \<Rightarrow> edit_row list \<times> int \<Rightarrow> js_error + edit_row list \<times> int" where
  "renderEditView_component student component st =
    (let (componentRows, totalScore) = st in
     if component \<noteq> ''gripStrength'' then
       (let firstTry = try_1st student component;
            secondTry = nullish (try_2nd student component) firstTry
        in case calculateScore component (gender student) (ToNumber firstTry) (ToNumber secondTry) of
             Inl e \<Rightarrow> Inl e
           | Inr sc \<Rightarrow> Inr
              (componentRows @
               [ComponentRow (componentOrder component)
                  (if component = ''situps'' \<or> component = ''20mshuttleruns'' then [firstTry]
                   else if component = ''50msprint'' then [firstTry]
                   else [firstTry, secondTry])
                  (getUnitForComponent component) sc],
               totalScore + sc))
     else Inr (componentRows, totalScore))"

definition renderEditView :: "Student \<Rightarrow> js_error + edit_row list" where
  "renderEditView student =
    (case renderGripStrength student of
       Inl e \<Rightarrow> Inl e
     | Inr gripRow \<Rightarrow>
        (case forEach (renderEditView_component student) componentOrder_keys
                ([gripRow], 0 + row_score gripRow) of
           Inl e \<Rightarrow> Inl e
         | Inr (componentRows, totalScore) \<Rightarrow>
            (case determineGrade totalScore (student_class student) of
               Inl e \<Rightarrow> Inl e
             | Inr letter \<Rightarrow> Inr (componentRows @ [TotalScoreRow totalScore, GradeRow letter]))))"

subsection \<open>Two student records\<close>

text \<open>
  A boy with 10 sit-ups in the first trial and 20 stored for the second, and a boy with
  grip strengths 30 (right) and 20 (left) in the first trial and no second trial stored.
\<close>

definition student_situps_10_20 :: Student where
  "student_situps_10_20 =
    \<lparr>enname = ''Taro'', jpname = ''Taro'', student_class = ''G1A'', grade = ''G1'', gender = Boy,
     try_1st = [''situps'' \<mapsto> Num 10], try_2nd = [''situps'' \<mapsto> Num 20]\<rparr>"

definition student_grip_first_trial_only :: Student where
  "student_grip_first_trial_only =
    \<lparr>enname = ''Taro'', jpname = ''Taro'', student_class = ''G1A'', grade = ''G1'', gender = Boy,
     try_1st = [''gripstrR'' \<mapsto> Num 30, ''gripstrL'' \<mapsto> Num 20], try_2nd = Map.empty\<rparr>"

section \<open>CSV import (CsvUpload.tsx, processCSV)\<close>

subsection \<open>Strings\<close>

text \<open>
  A string is a list of characters with codes 0 to 255; characters beyond U+00FF are not
  in the model. \<open>s.split(sep)\<close> for a one-character separator scans the string and
  closes the current field at each separator; the result is never empty, and the empty
  string gives one empty field.
\<close>

fun split_from :: "char \<Rightarrow> string \<Rightarrow> string \<Rightarrow> string list" where
  "split_from sep cur [] = [cur]"
| "split_from sep cur (c # cs) =
    (if c = sep then cur # split_from sep [] cs else split_from sep (cur @ [c]) cs)"

definition String_split :: "char \<Rightarrow> string \<Rightarrow> string list" where
  "String_split sep s = split_from sep [] s"

text \<open>
  \<open>s.trim()\<close> removes white space and line terminators at both ends: tab, line feed,
  vertical tab, form feed, carriage return, space and the no-break space.
\<close>

definition is_whitespace :: "char \<Rightarrow> bool" where
  "is_whitespace c = (of_char c \<in> {9, 10, 11, 12, 13, 32, 160 :: nat})"

definition String_trim :: "string \<Rightarrow> string" where
  "String_trim s = rev (dropWhile is_whitespace (rev (dropWhile is_whitespace s)))"

subsection \<open>Rows as objects\<close>

text \<open>
  \<^verbatim>\<open>const student: any = {};
  headers.forEach((header, index) => { student[header] = values[index] || ''; });\<close>
  The object is a map from property names to strings. \<open>values[index]\<close> beyond the end is
  \<open>undefined\<close>, which \<open>|| ''\<close> turns into the empty string. An assignment to the
  property \<open>__proto__\<close> of a string value changes nothing.
\<close>

type_synonym StudentData = "string \<Rightarrow> string option"

definition value_or_empty :: "string list \<Rightarrow> nat \<Rightarrow> string" where
  "value_or_empty values index = (if index < length values then values ! index else [])"

definition set_property :: "StudentData \<Rightarrow> string \<Rightarrow> string \<Rightarrow> StudentData" where
  "set_property obj key v = (if key = ''__proto__'' then obj else obj(key \<mapsto> v))"

fun headers_forEach :: "string list \<Rightarrow> nat \<Rightarrow> string list \<Rightarrow> StudentData \<Rightarrow> StudentData" where
  "headers_forEach [] index values student = student"
| "headers_forEach (header # headers) index values student =
    headers_forEach headers (index + 1) values
      (set_property student header (value_or_empty values index))"

definition row_to_student :: "string list \<Rightarrow> string \<Rightarrow> StudentData" where
  "row_to_student headers line =
    (let values = map String_trim (String_split CHR '','' line)
     in headers_forEach headers 0 values Map.empty)"

text \<open>
  The filter \<open>student.enname && student.jpname && ... && student.teacher\<close>: a property is
  truthy when it is present and not the empty string.
\<close>

definition truthy :: "StudentData \<Rightarrow> string \<Rightarrow> bool" where
  "truthy student key = (case student key of None \<Rightarrow> False | Some v \<Rightarrow> v \<noteq> [])"

definition required_fields :: "string list" where
  "required_fields =
    [''enname'', ''jpname'', ''firstname'', ''gender'', ''grade'', ''class'', ''teacher'']"

text \<open>
  \<^verbatim>\<open>const lines = csvData.split('\n');
  const headers = lines[0].split(',').map(header => header.trim());
  return lines.slice(1).map(line => { ... }).filter(student => ...);\<close>
  \<open>lines\<close> is never empty, so \<open>lines[0]\<close> is defined.
\<close>

definition processCSV :: "string \<Rightarrow> StudentData list" where
  "processCSV csvData =
    (case String_split CHR 0x0A csvData of
       [] \<Rightarrow> []
     | first # rest \<Rightarrow>
        (let headers = map String_trim (String_split CHR '','' first)
         in filter (\<lambda>student. truthy student ''enname'' \<and> truthy student ''jpname''
                      \<and> truthy student ''firstname'' \<and> truthy student ''gender''
                      \<and> truthy student ''grade'' \<and> truthy student ''class''
                      \<and> truthy student ''teacher'')
              (map (row_to_student headers) rest)))"

text \<open>
  The specification's words for a parsed row: the line is zipped against the header,
  missing trailing fields are the empty string, and a later column of the same name
  replaces an earlier one.
\<close>

definition spec_record :: "string list \<Rightarrow> string list \<Rightarrow> string \<Rightarrow> string option" where
  "spec_record headers values =
    map_of (rev (zip headers (values @ replicate (length headers - length values) [])))"

text \<open>The trimmed header names, the data lines and the trimmed values of a line.\<close>

definition csv_headers :: "string \<Rightarrow> string list" where
  "csv_headers csvData =
    (case String_split CHR 0x0A csvData of
       [] \<Rightarrow> []
     | first # rest \<Rightarrow> map String_trim (String_split CHR '','' first))"

definition csv_rows :: "string \<Rightarrow> string list" where
  "csv_rows csvData = (case String_split CHR 0x0A csvData of [] \<Rightarrow> [] | first # rest \<Rightarrow> rest)"

definition csv_values :: "string \<Rightarrow> string list" where
  "csv_values line = map String_trim (String_split CHR '','' line)"

section \<open>Roster upload and CSV export (CsvUpload.tsx, StudentManagement.tsx)\<close>

subsection \<open>Objects used as dictionaries\<close>

text \<open>
  \<open>studentsByClass\<close> is the object literal \<open>{}\<close>: reading a property finds an own
  property, or else a property inherited from \<open>Object.prototype\<close> (a function, or the
  prototype itself for \<open>__proto__\<close>), or else nothing. The own properties are kept in
  the order of their creation.
\<close>

definition Object_prototype_properties :: "string list" where
  "Object_prototype_properties =
    [''constructor'', ''__defineGetter__'', ''__defineSetter__'', ''hasOwnProperty'',
     ''__lookupGetter__'', ''__lookupSetter__'', ''isPrototypeOf'', ''propertyIsEnumerable'',
     ''toString'', ''valueOf'', ''__proto__'', ''toLocaleString'']"

datatype 'a lookup = Missing | Inherited | Own 'a

definition get_property :: "(string \<times> 'a) list \<Rightarrow> string \<Rightarrow> 'a lookup" where
  "get_property obj key =
    (case map_of obj key of
       Some v \<Rightarrow> Own v
     | None \<Rightarrow> if key \<in> set Object_prototype_properties then Inherited else Missing)"

text \<open>
  \<open>Object.entries\<close> lists the own properties whose names are array indices (canonical
  decimal numbers below \<open>2^32 - 1\<close>) first, in ascending order, and then the other
  properties in the order of their creation.
\<close>

definition is_digit :: "char \<Rightarrow> bool" where
  "is_digit c = (48 \<le> (of_char c :: nat) \<and> (of_char c :: nat) \<le> 57)"

definition parse_nat :: "string \<Rightarrow> nat" where
  "parse_nat s = foldl (\<lambda>n c. 10 * n + (of_char c - 48)) 0 s"

definition is_array_index :: "string \<Rightarrow> bool" where
  "is_array_index key =
    (key \<noteq> [] \<and> list_all is_digit key \<and> decimal (parse_nat key) = key
     \<and> parse_nat key < 4294967295)"

definition Object_entries :: "(string \<times> 'a) list \<Rightarrow> (string \<times> 'a) list" where
  "Object_entries obj =
    sort_key (\<lambda>(key, v). parse_nat key) (filter (\<lambda>(key, v). is_array_index key) obj)
    @ filter (\<lambda>(key, v). \<not> is_array_index key) obj"

text \<open>A property that is \<open>undefined\<close>, used as a property name or in a path.\<close>

definition ToString :: "string option \<Rightarrow> string" where
  "ToString v = (case v of None \<Rightarrow> ''undefined'' | Some s \<Rightarrow> s)"

subsection \<open>The database\<close>

text \<open>
  The realtime database is not part of the program. It is modelled as the list of the
  records stored under the paths \<open>year/classSection/studentKey\<close>; \<open>set\<close> replaces the
  record at a path or adds it. The validation of paths and values, and failures of the
  network, are outside the model. A snapshot lists the children of \<open>year/classSection\<close>
  by key, in the order of the character codes (this is the order \<open>student1\<close>,
  \<open>student10\<close>, \<open>student2\<close>).
\<close>

record StoredStudent =
  st_enname :: "string option"
  st_jpname :: "string option"
  st_firstname :: "string option"
  st_gender :: "string option"
  st_grade :: "string option"
  st_class :: "string option"
  st_teacher :: "string option"
  st_1sttry :: "(string \<times> number) list"
  st_2ndtry :: "(string \<times> number) list"

type_synonym database = "((string \<times> string \<times> string) \<times> StoredStudent) list"

fun db_set :: "string \<times> string \<times> string \<Rightarrow> StoredStudent \<Rightarrow> database \<Rightarrow> database" where
  "db_set path v [] = [(path, v)]"
| "db_set path v ((p, w) # db) = (if p = path then (p, v) # db else (p, w) # db_set path v db)"

definition snapshot_val :: "database \<Rightarrow> string \<Rightarrow> string \<Rightarrow> (string \<times> StoredStudent) list" where
  "snapshot_val db year classSection =
    sort_key fst
      (map (\<lambda>((y, c, key), v). (key, v))
         (filter (\<lambda>((y, c, key), v). y = year \<and> c = classSection) db))"

subsection \<open>uploadToFirebase\<close>

text \<open>
  \<^verbatim>\<open>students.forEach(student => {
    if (!studentsByClass[student.class]) { studentsByClass[student.class] = []; }
    studentsByClass[student.class].push(student);
  });\<close>
  An inherited property is truthy and has no \<open>push\<close>: the call throws a TypeError.
\<close>

fun set_own :: "(string \<times> 'a) list \<Rightarrow> string \<Rightarrow> 'a \<Rightarrow> (string \<times> 'a) list" where
  "set_own [] key v = [(key, v)]"
| "set_own ((k, w) # obj) key v = (if k = key then (k, v) # obj else (k, w) # set_own obj key v)"

definition group_student ::
  "StudentData \<Rightarrow> (string \<times> StudentData list) list \<Rightarrow> js_error + (string \<times> StudentData list) list" where
  "group_student student studentsByClass =
    (let key = ToString (student ''class'');
         studentsByClass =
           (case get_property studentsByClass key of
              Missing \<Rightarrow> set_own studentsByClass key []
            | _ \<Rightarrow> studentsByClass)
     in case get_property studentsByClass key of
          Own classStudents \<Rightarrow> Inr (set_own studentsByClass key (classStudents @ [student]))
        | _ \<Rightarrow> Inl TypeError)"

definition zero_trials :: "(string \<times> number) list" where
  "zero_trials =
    [(''20mshuttleruns'', Num 0), (''50msprint'', Num 0), (''aveGrip'', Num 0),
     (''gripstrL'', Num 0), (''gripstrR'', Num 0), (''longjump'', Num 0),
     (''seatedtoetouch'', Num 0), (''sidesteps'', Num 0), (''situps'', Num 0),
     (''softballthrowing'', Num 0)]"

definition studentData :: "StudentData \<Rightarrow> StoredStudent" where
  "studentData student =
    \<lparr>st_enname = student ''enname'', st_jpname = student ''jpname'',
     st_firstname = student ''firstname'', st_gender = student ''gender'',
     st_grade = student ''grade'', st_class = student ''class'',
     st_teacher = student ''teacher'', st_1sttry = zero_trials, st_2ndtry = zero_trials\<rparr>"

text \<open>The inner loop \<open>for (let i = 0; i < classStudents.length; i++)\<close>, from index \<open>i\<close>.\<close>

fun upload_class :: "string \<Rightarrow> string \<Rightarrow> nat \<Rightarrow> StudentData list \<Rightarrow> database \<Rightarrow> database" where
  "upload_class currentYear classSection i [] db = db"
| "upload_class currentYear classSection i (student # classStudents) db =
    upload_class currentYear classSection (i + 1) classStudents
      (db_set (currentYear, classSection, ''student'' @ decimal (i + 1)) (studentData student) db)"

definition uploadToFirebase :: "string \<Rightarrow> StudentData list \<Rightarrow> database \<Rightarrow> string \<times> database" where
  "uploadToFirebase currentYear students db =
    (case forEach group_student students [] of
       Inl e \<Rightarrow> (''Error uploading data. Please try again.'', db)
     | Inr studentsByClass \<Rightarrow>
        (''Successfully uploaded student data!'',
         foldl (\<lambda>db (classSection, classStudents).
                  upload_class currentYear classSection 0 classStudents db)
           db (Object_entries studentsByClass)))"

subsection \<open>The roster read back and downloadCSV\<close>

text \<open>
  \<^verbatim>\<open>parseInt(key.match(/\d+$/)?.[0] || '0', 10)\<close>: the number written by the digits at
  the end of the key, 0 when there is none.
\<close>

definition key_number :: "string \<Rightarrow> nat" where
  "key_number key =
    (let digits = rev (takeWhile is_digit (rev key))
     in if digits = [] then 0 else parse_nat digits)"

text \<open>
  The students that the effect of \<open>StudentManagement\<close> puts in the state: for a selected
  grade the entries of its snapshot, sorted by the number of the key; for no selected
  grade (\<open>''\<close>, all grades) the entries of the snapshots of the listed grades, pushed as the
  snapshots list them. The snapshots are taken in the order of \<open>grades\<close>.
\<close>

definition loaded_students ::
  "database \<Rightarrow> string \<Rightarrow> string list \<Rightarrow> string \<Rightarrow> (string \<times> StoredStudent) list" where
  "loaded_students db selectedSchoolYear grades selectedGrade =
    (if selectedGrade = []
     then concat (map (\<lambda>g. snapshot_val db selectedSchoolYear g) grades)
     else sort_key (\<lambda>(key, student). key_number key)
            (snapshot_val db selectedSchoolYear selectedGrade))"

text \<open>\<open>items.join(sep)\<close>; an \<open>undefined\<close> item is joined as the empty string.\<close>

fun join :: "string \<Rightarrow> string list \<Rightarrow> string" where
  "join sep [] = []"
| "join sep [x] = x"
| "join sep (x # y # ys) = x @ sep @ join sep (y # ys)"

definition join_item :: "string option \<Rightarrow> string" where
  "join_item v = (case v of None \<Rightarrow> [] | Some s \<Rightarrow> s)"

definition downloadCSV :: "StoredStudent list \<Rightarrow> string" where
  "downloadCSV students =
    (let headers = [''enname'', ''jpname'', ''firstname'', ''gender'', ''grade'', ''class'',
                    ''teacher''];
         csvContent = join '','' headers #
           map (\<lambda>student. join '',''
                  (map join_item
                     [st_enname student, st_jpname student, st_firstname student,
                      st_gender student, st_grade student, st_class student,
                      st_teacher student]))
             students
     in join [CHR 0x0A] csvContent)"

text \<open>
  Import then export: the file is parsed and uploaded into a database, and the roster
  is read back and downloaded.
\<close>

definition import_then_export ::
  "string \<Rightarrow> string \<Rightarrow> database \<Rightarrow> string list \<Rightarrow> string \<Rightarrow> string \<times> string" where
  "import_then_export csvData year db grades selectedGrade =
    (let (message, db') = uploadToFirebase year (processCSV csvData) db
     in (message, downloadCSV (map snd (loaded_students db' year grades selectedGrade))))"

subsection \<open>Two files\<close>

definition csv_header_line :: string where
  "csv_header_line = ''enname,jpname,firstname,gender,grade,class,teacher''"

text \<open>Ten students of the class G1A, and one student whose class is \<open>constructor\<close>.\<close>

definition csv_ten_students :: string where
  "csv_ten_students =
    join [CHR 0x0A]
      [csv_header_line,
       ''E1,J1,F1,Boy,1,G1A,T'', ''E2,J2,F2,Girl,1,G1A,T'', ''E3,J3,F3,Boy,1,G1A,T'',
       ''E4,J4,F4,Girl,1,G1A,T'', ''E5,J5,F5,Boy,1,G1A,T'', ''E6,J6,F6,Girl,1,G1A,T'',
       ''E7,J7,F7,Boy,1,G1A,T'', ''E8,J8,F8,Girl,1,G1A,T'', ''E9,J9,F9,Boy,1,G1A,T'',
       ''E10,J10,F10,Girl,1,G1A,T'']"

definition csv_constructor_class :: string where
  "csv_constructor_class =
    join [CHR 0x0A] [csv_header_line, ''E1,J1,F1,Boy,1,constructor,T'']"

section \<open>Properties of the letter grades\<close>

subsection \<open>Facts about the loop\<close>

lemma determineGrade_loop_met:
  assumes "i \<le> k" "k < length ths" "s \<ge> ths ! k" "\<forall>j. i \<le> j \<and> j < k \<longrightarrow> s < ths ! j"
  shows "determineGrade_loop s ths i = [char_of (65 + k)]"
  using assms
proof (induction s ths i rule: determineGrade_loop.induct)
  case (1 s ths i)
  show ?case
  proof (cases "i = k")
    case True
    with "1.prems" show ?thesis
      by (subst determineGrade_loop.simps) simp
  next
    case False
    with "1.prems" have lt: "i < k" and miss: "\<not> s \<ge> ths ! i"
      by auto
    from lt "1.prems" have "determineGrade_loop s ths (i + 1) = [char_of (65 + k)]"
      using miss by (intro "1.IH") auto
    with lt miss "1.prems" show ?thesis
      by (simp add: determineGrade_loop.simps [of s ths i])
  qed
qed

lemma determineGrade_loop_none:
  assumes "\<forall>j. i \<le> j \<and> j < length ths \<longrightarrow> s < ths ! j"
  shows "determineGrade_loop s ths i = ''E''"
  using assms
proof (induction s ths i rule: determineGrade_loop.induct)
  case (1 s ths i)
  show ?case
  proof (cases "i < length ths")
    case True
    with "1.prems" have miss: "\<not> s \<ge> ths ! i"
      by auto
    have "determineGrade_loop s ths (i + 1) = ''E''"
      using True miss "1.prems" by (intro "1.IH") auto
    with True miss show ?thesis
      by (simp add: determineGrade_loop.simps [of s ths i])
  next
    case False
    then show ?thesis
      by (simp add: determineGrade_loop.simps [of s ths i])
  qed
qed

lemma gradeThresholds_G2: "gradeThresholds ''G2'' = Some [47, 41, 34, 27, 26]"
  by (simp add: gradeThresholds_def gradeThresholds_entries_def)

lemma letter_E: "''E'' = [char_of (65 + (4::nat))]"
  by code_simp

lemma letter_codes:
  "char_of (65::nat) = CHR ''A''" "char_of (66::nat) = CHR ''B''" "char_of (67::nat) = CHR ''C''"
  "char_of (68::nat) = CHR ''D''" "char_of (69::nat) = CHR ''E''"
  by code_simp+

lemma of_char_letter: "k \<le> 4 \<Longrightarrow> (of_char (char_of (65 + (k::nat))) :: nat) = 65 + k"
  by (simp add: of_char_of)

lemma determineGrade_loop_mono:
  assumes "s1 \<le> s2" "length ths \<le> 5"
  shows "\<exists>k1 k2. determineGrade_loop s1 ths i = [char_of (65 + k1)]
           \<and> determineGrade_loop s2 ths i = [char_of (65 + k2)]
           \<and> k2 \<le> k1 \<and> k1 \<le> 4 \<and> min i 4 \<le> k2"
  using assms
proof (induction s1 ths i rule: determineGrade_loop.induct)
  case (1 s1 ths i)
  show ?case
  proof (cases "i < length ths")
    case False
    then have "determineGrade_loop s1 ths i = [char_of (65 + (4::nat))]"
      and "determineGrade_loop s2 ths i = [char_of (65 + (4::nat))]"
      by (simp_all add: determineGrade_loop.simps [of _ ths i] letter_codes)
    then show ?thesis
      by (intro exI [of _ 4]) simp
  next
    case inside: True
    with "1.prems" have i4: "i \<le> 4"
      by simp
    show ?thesis
    proof (cases "s1 \<ge> ths ! i")
      case True
      with "1.prems" have "s2 \<ge> ths ! i"
        by simp
      with True inside have "determineGrade_loop s1 ths i = [char_of (65 + i)]"
        and "determineGrade_loop s2 ths i = [char_of (65 + i)]"
        by (simp_all add: determineGrade_loop.simps [of _ ths i])
      with i4 show ?thesis
        by (intro exI [of _ i]) simp
    next
      case False
      from "1.IH" [OF inside False "1.prems"] obtain k1 k2
        where r1: "determineGrade_loop s1 ths (i + 1) = [char_of (65 + k1)]"
          and r2: "determineGrade_loop s2 ths (i + 1) = [char_of (65 + k2)]"
          and ord: "k2 \<le> k1" "k1 \<le> 4" "min (i + 1) 4 \<le> k2"
        by blast
      from False inside r1 have l1: "determineGrade_loop s1 ths i = [char_of (65 + k1)]"
        by (simp add: determineGrade_loop.simps [of s1 ths i])
      show ?thesis
      proof (cases "s2 \<ge> ths ! i")
        case True
        with inside have "determineGrade_loop s2 ths i = [char_of (65 + i)]"
          by (simp add: determineGrade_loop.simps [of s2 ths i])
        with l1 ord i4 show ?thesis
          by (intro exI [of _ k1] exI [of _ i]) simp
      next
        case False
        with inside r2 have "determineGrade_loop s2 ths i = [char_of (65 + k2)]"
          by (simp add: determineGrade_loop.simps [of s2 ths i])
        with l1 ord i4 show ?thesis
          by (intro exI [of _ k1] exI [of _ k2]) simp
      qed
    qed
  qed
qed

lemma gradeThresholds_length: "gradeThresholds k = Some ths \<Longrightarrow> length ths = 5"
  by (auto simp: gradeThresholds_def gradeThresholds_entries_def split: if_splits)

lemma gradeThresholds_None_iff:
  "gradeThresholds k = None \<longleftrightarrow> k \<notin> {''G1'', ''G2'', ''G3'', ''G4'', ''G5'', ''G6''}"
  by (simp add: gradeThresholds_def gradeThresholds_entries_def)

subsection \<open>The grade of a total\<close>

text \<open>
  C5. \<open>determineGrade\<close> reads the threshold list of the two-character prefix of the grade
  level, walks it in order and returns the letter of the first threshold that the total
  meets or exceeds (\<open>A\<close> for index 0, \<open>B\<close> for index 1, and so on: the characters of
  the codes 65 to 69 are \<open>ABCDE\<close>), and \<open>E\<close> when no threshold is met; with the
  thresholds of G2, a total of 45 gives \<open>B\<close>.
\<close>

theorem determineGrade_first_threshold:
  assumes "gradeThresholds (take 2 gradeLevel) = Some ths"
  shows "(\<forall>k. k < length ths \<and> totalScore \<ge> ths ! k \<and> (\<forall>j<k. totalScore < ths ! j)
            \<longrightarrow> determineGrade totalScore gradeLevel = Inr [char_of (65 + k)])
       \<and> ((\<forall>j<length ths. totalScore < ths ! j)
            \<longrightarrow> determineGrade totalScore gradeLevel = Inr ''E'')
       \<and> map (\<lambda>k. char_of (65 + k)) [0, 1, 2, 3, 4 :: nat] = ''ABCDE''
       \<and> gradeThresholds ''G2'' = Some [47, 41, 34, 27, 26]
       \<and> determineGrade 45 ''G2'' = Inr ''B''"
proof (intro conjI allI impI)
  fix k
  assume "k < length ths \<and> totalScore \<ge> ths ! k \<and> (\<forall>j<k. totalScore < ths ! j)"
  then have "determineGrade_loop totalScore ths 0 = [char_of (65 + k)]"
    by (intro determineGrade_loop_met) auto
  with assms show "determineGrade totalScore gradeLevel = Inr [char_of (65 + k)]"
    by (simp add: determineGrade_def)
next
  assume "\<forall>j<length ths. totalScore < ths ! j"
  then have "determineGrade_loop totalScore ths 0 = ''E''"
    by (intro determineGrade_loop_none) auto
  with assms show "determineGrade totalScore gradeLevel = Inr ''E''"
    by (simp add: determineGrade_def)
next
  show "map (\<lambda>k. char_of (65 + k)) [0, 1, 2, 3, 4 :: nat] = ''ABCDE''"
    by (simp add: letter_codes)
next
  show "gradeThresholds ''G2'' = Some [47, 41, 34, 27, 26]"
    by (rule gradeThresholds_G2)
next
  have "determineGrade_loop 45 [47, 41, 34, 27, 26] 0 = [char_of (65 + (1::nat))]"
    by (intro determineGrade_loop_met) (auto simp: less_Suc_eq)
  moreover have "char_of (65 + (1::nat)) = CHR ''B''"
    by code_simp
  ultimately show "determineGrade 45 ''G2'' = Inr ''B''"
    by (simp add: determineGrade_def gradeThresholds_G2)
qed

theorem determineGrade_first_threshold_witness:
  "determineGrade 45 ''G2A'' = Inr ''B'' \<and> determineGrade 20 ''G2A'' = Inr ''E''"
proof -
  have g: "gradeThresholds (take 2 ''G2A'') = Some [47, 41, 34, 27, 26]"
    by (simp add: gradeThresholds_def gradeThresholds_entries_def)
  have b: "char_of (65 + (1::nat)) = CHR ''B''"
    by code_simp
  from determineGrade_first_threshold [OF g, of 45]
  have "determineGrade 45 ''G2A'' = Inr [char_of (65 + (1::nat))]"
    by (auto simp: less_Suc_eq dest!: spec [of _ 1])
  moreover from determineGrade_first_threshold [OF g, of 20]
  have "determineGrade 20 ''G2A'' = Inr ''E''"
    by (auto simp: less_Suc_eq numeral_eq_Suc)
  ultimately show ?thesis
    by (simp add: letter_codes)
qed

text \<open>
  C6. \<open>determineGrade\<close> is monotonic in the total score: for a grade level whose
  two-character prefix is a key of the threshold table and totals \<open>s1 \<le> s2\<close>, both calls
  return a one-letter grade, and the letter for \<open>s2\<close> is alphabetically no later than the
  letter for \<open>s1\<close>.
\<close>

theorem determineGrade_monotonic:
  assumes "take 2 gradeLevel \<in> dom gradeThresholds" and "s1 \<le> s2"
  shows "\<exists>c1 c2. determineGrade s1 gradeLevel = Inr [c1]
            \<and> determineGrade s2 gradeLevel = Inr [c2]
            \<and> (of_char c2 :: nat) \<le> of_char c1"
proof -
  from assms(1) obtain ths where ths: "gradeThresholds (take 2 gradeLevel) = Some ths"
    by auto
  then have "length ths \<le> 5"
    by (simp add: gradeThresholds_length)
  from determineGrade_loop_mono [OF assms(2) this, of 0] obtain k1 k2 :: nat
    where "determineGrade_loop s1 ths 0 = [char_of (65 + k1)]"
      and "determineGrade_loop s2 ths 0 = [char_of (65 + k2)]"
      and "k2 \<le> k1" "k1 \<le> 4"
    by blast
  with ths show ?thesis
    by (simp add: determineGrade_def of_char_letter)
qed

theorem determineGrade_monotonic_witness:
  "\<exists>c1 c2. determineGrade 30 ''G2A'' = Inr [c1] \<and> determineGrade 45 ''G2A'' = Inr [c2]
     \<and> (of_char c2 :: nat) \<le> of_char c1"
  using determineGrade_monotonic [of "''G2A''" 30 45]
  by (simp add: gradeThresholds_def gradeThresholds_entries_def dom_def)

text \<open>
  A total of 5 in grade G1 meets the fifth threshold (2) and is graded \<open>E\<close>: the letter \<open>E\<close>
  is not reserved for totals that meet no threshold.
\<close>

theorem determineGrade_E_counterexample:
  "determineGrade 5 ''G1A'' = Inr ''E''
   \<and> gradeThresholds (take 2 ''G1A'') = Some [39, 33, 27, 22, 2]
   \<and> (5::int) \<ge> [39, 33, 27, 22, 2] ! 4"
  by code_simp

text \<open>
  C10. \<open>determineGrade\<close> is partial in the grade level: when the two-character prefix of
  the grade level is not one of the keys G1 to G6, the table lookup yields no entry and
  the call throws a TypeError. As stated, the claim also says that \<open>E\<close> is returned only
  when no threshold is met; the loop returns \<open>String.fromCharCode(65 + 4)\<close>, which is \<open>E\<close> as
  well, when the fifth threshold is the first one met. What holds: \<open>E\<close> is returned exactly
  when the prefix is a known grade and the total is below each of the first four
  thresholds.
\<close>

theorem determineGrade_partial:
  "(take 2 gradeLevel \<notin> {''G1'', ''G2'', ''G3'', ''G4'', ''G5'', ''G6''}
      \<longrightarrow> gradeThresholds (take 2 gradeLevel) = None
        \<and> determineGrade totalScore gradeLevel = Inl TypeError)
   \<and> (determineGrade totalScore gradeLevel = Inr ''E'' \<longleftrightarrow>
        (\<exists>ths. gradeThresholds (take 2 gradeLevel) = Some ths
          \<and> (\<forall>i<4. totalScore < ths ! i)))"
proof (intro conjI impI)
  assume "take 2 gradeLevel \<notin> {''G1'', ''G2'', ''G3'', ''G4'', ''G5'', ''G6''}"
  then show "gradeThresholds (take 2 gradeLevel) = None"
    by (simp add: gradeThresholds_None_iff)
  then show "determineGrade totalScore gradeLevel = Inl TypeError"
    by (simp add: determineGrade_def)
next
  show "determineGrade totalScore gradeLevel = Inr ''E'' \<longleftrightarrow>
        (\<exists>ths. gradeThresholds (take 2 gradeLevel) = Some ths
          \<and> (\<forall>i<4. totalScore < ths ! i))"
  proof (cases "gradeThresholds (take 2 gradeLevel)")
    case None
    then show ?thesis
      by (simp add: determineGrade_def)
  next
    case (Some ths)
    then have len: "length ths = 5"
      by (rule gradeThresholds_length)
    have "determineGrade_loop totalScore ths 0 = ''E'' \<longleftrightarrow> (\<forall>i<4. totalScore < ths ! i)"
    proof
      assume e: "determineGrade_loop totalScore ths 0 = ''E''"
      show "\<forall>i<4. totalScore < ths ! i"
      proof (rule ccontr)
        assume "\<not> (\<forall>i<4. totalScore < ths ! i)"
        then obtain i where "i < 4" "totalScore \<ge> ths ! i"
          by (auto simp: not_less)
        define k where "k = (LEAST i. i < 4 \<and> totalScore \<ge> ths ! i)"
        have k: "k < 4 \<and> totalScore \<ge> ths ! k"
          unfolding k_def using \<open>i < 4\<close> \<open>totalScore \<ge> ths ! i\<close>
          by (intro LeastI [of "\<lambda>i. i < 4 \<and> totalScore \<ge> ths ! i" i]) simp
        have least: "\<forall>j<k. totalScore < ths ! j"
        proof (intro allI impI)
          fix j assume "j < k"
          then have "\<not> (j < 4 \<and> totalScore \<ge> ths ! j)"
            unfolding k_def by (rule not_less_Least)
          with \<open>j < k\<close> k show "totalScore < ths ! j"
            by auto
        qed
        have "determineGrade_loop totalScore ths 0 = [char_of (65 + k)]"
          using k least len by (intro determineGrade_loop_met) auto
        with e have "of_char (char_of (65 + k)) = (of_char (CHR ''E'') :: nat)"
          by simp
        with k show False
          by (simp add: of_char_of)
      qed
    next
      assume miss: "\<forall>i<4. totalScore < ths ! i"
      show "determineGrade_loop totalScore ths 0 = ''E''"
      proof (cases "totalScore \<ge> ths ! 4")
        case True
        have "determineGrade_loop totalScore ths 0 = [char_of (65 + (4::nat))]"
          using True miss len by (intro determineGrade_loop_met) auto
        then show ?thesis
          by (simp add: letter_codes)
      next
        case False
        have "\<forall>j. 0 \<le> j \<and> j < length ths \<longrightarrow> totalScore < ths ! j"
        proof (intro allI impI)
          fix j assume "0 \<le> j \<and> j < length ths"
          with len have "j < 4 \<or> j = 4"
            by auto
          with miss False show "totalScore < ths ! j"
            by auto
        qed
        then show ?thesis
          by (rule determineGrade_loop_none)
      qed
    qed
    with Some show ?thesis
      by (simp add: determineGrade_def)
  qed
qed

theorem determineGrade_partial_witness:
  "determineGrade 45 '''' = Inl TypeError \<and> determineGrade 45 ''X1A'' = Inl TypeError
   \<and> determineGrade 20 ''G1A'' = Inr ''E''"
  using determineGrade_partial [of "''''" 45] determineGrade_partial [of "''X1A''" 45]
    determineGrade_partial [of "''G1A''" 20]
  by (simp add: gradeThresholds_def gradeThresholds_entries_def less_Suc_eq numeral_eq_Suc)

section \<open>Properties of the scores\<close>

subsection \<open>The integers that each table covers\<close>

lemma rat_of_int_le_numeral:
  "(rat_of_int n * numeral b \<le> numeral a) \<longleftrightarrow> (n * numeral b \<le> numeral a)"
  by (metis of_int_le_iff of_int_mult of_int_numeral)

lemma rat_of_int_ge_numeral:
  "(numeral a \<le> rat_of_int n * numeral b) \<longleftrightarrow> (numeral a \<le> n * numeral b)"
  by (metis of_int_le_iff of_int_mult of_int_numeral)

lemma covered_gripStrength_Boy:
  "(\<exists>r\<in>set scoringTables_gripStrength_Boy. in_range (Num (of_int n)) r) \<longleftrightarrow> 4 \<le> n \<and> n \<le> 100"
  by (simp add: scoringTables_gripStrength_Boy_def in_range_def number_ge_def rat_of_int_le_numeral rat_of_int_ge_numeral) arith

lemma covered_gripStrength_Girl:
  "(\<exists>r\<in>set scoringTables_gripStrength_Girl. in_range (Num (of_int n)) r) \<longleftrightarrow> 3 \<le> n \<and> n \<le> 100"
  by (simp add: scoringTables_gripStrength_Girl_def in_range_def number_ge_def rat_of_int_le_numeral rat_of_int_ge_numeral) arith

lemma covered_situps_Boy:
  "(\<exists>r\<in>set scoringTables_situps_Boy. in_range (Num (of_int n)) r) \<longleftrightarrow> 2 \<le> n"
  by (simp add: scoringTables_situps_Boy_def in_range_def number_ge_def rat_of_int_le_numeral rat_of_int_ge_numeral) arith

lemma covered_situps_Girl:
  "(\<exists>r\<in>set scoringTables_situps_Girl. in_range (Num (of_int n)) r) \<longleftrightarrow> 2 \<le> n"
  by (simp add: scoringTables_situps_Girl_def in_range_def number_ge_def rat_of_int_le_numeral rat_of_int_ge_numeral) arith

lemma covered_seatedtoetouch_Boy:
  "(\<exists>r\<in>set scoringTables_seatedtoetouch_Boy. in_range (Num (of_int n)) r) \<longleftrightarrow> 14 \<le> n"
  by (simp add: scoringTables_seatedtoetouch_Boy_def in_range_def number_ge_def rat_of_int_le_numeral rat_of_int_ge_numeral) arith

lemma covered_seatedtoetouch_Girl:
  "(\<exists>r\<in>set scoringTables_seatedtoetouch_Girl. in_range (Num (of_int n)) r) \<longleftrightarrow> 17 \<le> n"
  by (simp add: scoringTables_seatedtoetouch_Girl_def in_range_def number_ge_def rat_of_int_le_numeral rat_of_int_ge_numeral) arith

lemma covered_sidesteps_Boy:
  "(\<exists>r\<in>set scoringTables_sidesteps_Boy. in_range (Num (of_int n)) r) \<longleftrightarrow> 1 \<le> n"
  by (simp add: scoringTables_sidesteps_Boy_def in_range_def number_ge_def rat_of_int_le_numeral rat_of_int_ge_numeral) arith

lemma covered_sidesteps_Girl:
  "(\<exists>r\<in>set scoringTables_sidesteps_Girl. in_range (Num (of_int n)) r) \<longleftrightarrow> 1 \<le> n"
  by (simp add: scoringTables_sidesteps_Girl_def in_range_def number_ge_def rat_of_int_le_numeral rat_of_int_ge_numeral) arith

lemma covered_shuttleruns_20m_Boy:
  "(\<exists>r\<in>set scoringTables_shuttleruns_20m_Boy. in_range (Num (of_int n)) r) \<longleftrightarrow> 1 \<le> n"
  by (simp add: scoringTables_shuttleruns_20m_Boy_def in_range_def number_ge_def rat_of_int_le_numeral rat_of_int_ge_numeral) arith

lemma covered_shuttleruns_20m_Girl:
  "(\<exists>r\<in>set scoringTables_shuttleruns_20m_Girl. in_range (Num (of_int n)) r) \<longleftrightarrow> 1 \<le> n"
  by (simp add: scoringTables_shuttleruns_20m_Girl_def in_range_def number_ge_def rat_of_int_le_numeral rat_of_int_ge_numeral) arith

lemma covered_sprint_50m_Boy:
  "(\<exists>r\<in>set scoringTables_sprint_50m_Boy. in_range (Num (of_int n)) r) \<longleftrightarrow> 1 \<le> n"
  by (simp add: scoringTables_sprint_50m_Boy_def in_range_def number_ge_def rat_of_int_le_numeral rat_of_int_ge_numeral) arith

lemma covered_sprint_50m_Girl:
  "(\<exists>r\<in>set scoringTables_sprint_50m_Girl. in_range (Num (of_int n)) r) \<longleftrightarrow> 1 \<le> n"
  by (simp add: scoringTables_sprint_50m_Girl_def in_range_def number_ge_def rat_of_int_le_numeral rat_of_int_ge_numeral) arith

lemma covered_longjump_Boy:
  "(\<exists>r\<in>set scoringTables_longjump_Boy. in_range (Num (of_int n)) r) \<longleftrightarrow> 1 \<le> n"
  by (simp add: scoringTables_longjump_Boy_def in_range_def number_ge_def rat_of_int_le_numeral rat_of_int_ge_numeral) arith

lemma covered_longjump_Girl:
  "(\<exists>r\<in>set scoringTables_longjump_Girl. in_range (Num (of_int n)) r) \<longleftrightarrow> 1 \<le> n"
  by (simp add: scoringTables_longjump_Girl_def in_range_def number_ge_def rat_of_int_le_numeral rat_of_int_ge_numeral) arith

lemma covered_softballthrowing_Boy:
  "(\<exists>r\<in>set scoringTables_softballthrowing_Boy. in_range (Num (of_int n)) r) \<longleftrightarrow> 1 \<le> n"
  by (simp add: scoringTables_softballthrowing_Boy_def in_range_def number_ge_def rat_of_int_le_numeral rat_of_int_ge_numeral) arith

lemma covered_softballthrowing_Girl:
  "(\<exists>r\<in>set scoringTables_softballthrowing_Girl. in_range (Num (of_int n)) r) \<longleftrightarrow> 1 \<le> n"
  by (simp add: scoringTables_softballthrowing_Girl_def in_range_def number_ge_def rat_of_int_le_numeral rat_of_int_ge_numeral) arith

lemmas covered_tables =
  covered_gripStrength_Boy
  covered_gripStrength_Girl
  covered_situps_Boy
  covered_situps_Girl
  covered_seatedtoetouch_Boy
  covered_seatedtoetouch_Girl
  covered_sidesteps_Boy
  covered_sidesteps_Girl
  covered_shuttleruns_20m_Boy
  covered_shuttleruns_20m_Girl
  covered_sprint_50m_Boy
  covered_sprint_50m_Girl
  covered_longjump_Boy
  covered_longjump_Girl
  covered_softballthrowing_Boy
  covered_softballthrowing_Girl

subsection \<open>Disjoint ranges and the lookup\<close>

lemma number_le_trans: "number_le a b \<Longrightarrow> number_le b c \<Longrightarrow> number_le a c"
  by (cases a; cases b; cases c) auto

lemma in_range_not_separated:
  "in_range v r \<Longrightarrow> in_range v r' \<Longrightarrow> \<not> separated r r'"
  unfolding in_range_def separated_def number_ge_def
  by (blast intro: number_le_trans)

lemma sorted_wrt_separated_unique:
  assumes "sorted_wrt separated rs" "r \<in> set rs" "r' \<in> set rs" "in_range v r" "in_range v r'"
  shows "r' = r"
  using assms
proof (induction rs)
  case Nil
  then show ?case by simp
next
  case (Cons x xs)
  have "\<not> separated r r'" "\<not> separated r' r"
    using Cons.prems(4,5) by (simp_all add: in_range_not_separated)
  with Cons show ?case
    by (cases "r = x"; cases "r' = x") auto
qed

lemma find_unique:
  assumes "r \<in> set xs" "P r" "\<forall>r'\<in>set xs. P r' \<longrightarrow> r' = r"
  shows "find P xs = Some r"
proof -
  from assms(1,2) obtain y where y: "find P xs = Some y"
    by (cases "find P xs") (auto simp: find_None_iff)
  then have "y \<in> set xs" "P y"
    by (auto simp: find_Some_iff)
  with assms(3) y show ?thesis
    by blast
qed

lemma find_none: "(\<forall>r\<in>set xs. \<not> P r) \<Longrightarrow> find P xs = None"
  by (simp add: find_None_iff)

lemma calculateScore_find:
  assumes "scoringTables component = Some table"
  shows "calculateScore component g firstTry secondTry =
    Inr (case find (in_range (scoredValue component firstTry secondTry)) (table g) of
           Some r \<Rightarrow> score r | None \<Rightarrow> 0)"
proof -
  have flip: "(\<lambda>range. number_le v (range_max range) \<and> number_ge v (range_min range)) = in_range v"
    for v
    by (auto simp: in_range_def fun_eq_iff)
  have same: "(\<lambda>range. number_ge v (range_min range) \<and> number_le v (range_max range)) = in_range v"
    for v
    by (auto simp: in_range_def fun_eq_iff)
  show ?thesis
    using assms by (simp add: calculateScore_def scoredValue_def Let_def flip same)
qed

lemma scoringTables_in_all_tables:
  assumes "scoringTables component = Some table"
  shows "table g \<in> set all_tables"
proof -
  from assms have "(component, table) \<in> set scoringTables_entries"
    unfolding scoringTables_def by (rule map_of_SomeD)
  then have "table \<in> snd ` set scoringTables_entries"
    by force
  then show ?thesis
    unfolding scoringTables_entries_def all_tables_def
    by (cases g) auto
qed

lemma all_tables_separated: "\<forall>T\<in>set all_tables. sorted_wrt separated T"
  unfolding all_tables_def
  by (simp add: separated_def
      scoringTables_gripStrength_Boy_def scoringTables_gripStrength_Girl_def
      scoringTables_situps_Boy_def scoringTables_situps_Girl_def
      scoringTables_seatedtoetouch_Boy_def scoringTables_seatedtoetouch_Girl_def
      scoringTables_sidesteps_Boy_def scoringTables_sidesteps_Girl_def
      scoringTables_shuttleruns_20m_Boy_def scoringTables_shuttleruns_20m_Girl_def
      scoringTables_sprint_50m_Boy_def scoringTables_sprint_50m_Girl_def
      scoringTables_longjump_Boy_def scoringTables_longjump_Girl_def
      scoringTables_softballthrowing_Boy_def scoringTables_softballthrowing_Girl_def)

lemma all_tables_scores_list:
  "list_all (list_all (\<lambda>r. 1 \<le> score r \<and> score r \<le> 10)) all_tables"
  unfolding all_tables_def
  by (simp add:
      scoringTables_gripStrength_Boy_def scoringTables_gripStrength_Girl_def
      scoringTables_situps_Boy_def scoringTables_situps_Girl_def
      scoringTables_seatedtoetouch_Boy_def scoringTables_seatedtoetouch_Girl_def
      scoringTables_sidesteps_Boy_def scoringTables_sidesteps_Girl_def
      scoringTables_shuttleruns_20m_Boy_def scoringTables_shuttleruns_20m_Girl_def
      scoringTables_sprint_50m_Boy_def scoringTables_sprint_50m_Girl_def
      scoringTables_longjump_Boy_def scoringTables_longjump_Girl_def
      scoringTables_softballthrowing_Boy_def scoringTables_softballthrowing_Girl_def)

lemma all_tables_scores: "\<forall>T\<in>set all_tables. \<forall>r\<in>set T. 1 \<le> score r \<and> score r \<le> 10"
  using all_tables_scores_list unfolding list_all_iff by blast

lemma all_tables_cases:
  assumes "T \<in> set all_tables"
  obtains
      "T = scoringTables_gripStrength_Boy" | "T = scoringTables_gripStrength_Girl"
    | "T = scoringTables_situps_Boy" | "T = scoringTables_situps_Girl"
    | "T = scoringTables_seatedtoetouch_Boy" | "T = scoringTables_seatedtoetouch_Girl"
    | "T = scoringTables_sidesteps_Boy" | "T = scoringTables_sidesteps_Girl"
    | "T = scoringTables_shuttleruns_20m_Boy" | "T = scoringTables_shuttleruns_20m_Girl"
    | "T = scoringTables_sprint_50m_Boy" | "T = scoringTables_sprint_50m_Girl"
    | "T = scoringTables_longjump_Boy" | "T = scoringTables_longjump_Girl"
    | "T = scoringTables_softballthrowing_Boy" | "T = scoringTables_softballthrowing_Girl"
  using assms unfolding all_tables_def by auto

lemma all_tables_contiguous:
  assumes "T \<in> set all_tables" "a \<le> n" "n \<le> b"
    and "\<exists>r\<in>set T. in_range (Num (of_int a)) r" and "\<exists>r\<in>set T. in_range (Num (of_int b)) r"
  shows "\<exists>r\<in>set T. in_range (Num (of_int (n::int))) r"
  using assms(1)
proof (cases rule: all_tables_cases)
qed (use assms(2-) in \<open>simp_all only: covered_tables, simp_all\<close>)

lemma all_tables_zero:
  assumes "T \<in> set all_tables"
  shows "\<not> (\<exists>r\<in>set T. in_range (Num (of_int 0)) r)"
  using assms
proof (cases rule: all_tables_cases)
qed (simp_all only: covered_tables, simp_all)

lemma truncateToOneDecimal_of_int:
  "truncateToOneDecimal (Num (of_int n)) = Num (of_int n)"
proof -
  have "\<lfloor>rat_of_int n * 10\<rfloor> = n * 10"
    by (metis floor_of_int of_int_mult of_int_numeral)
  then show ?thesis
    by (simp add: truncateToOneDecimal_def)
qed

lemma scoredValue_of_int:
  "scoredValue component (Num (of_int n1)) (Num (of_int n2)) =
     Num (of_int (if component = ''50msprint'' then n1 else max n1 n2))"
  by (simp add: scoredValue_def truncateToOneDecimal_of_int max_def)

lemma scoredValue_NaN: "scoredValue component NaN secondTry = NaN"
  by (simp add: scoredValue_def truncateToOneDecimal_def)

lemma in_range_NaN: "\<not> in_range NaN r"
  by (simp add: in_range_def number_ge_def)

subsection \<open>Scores of values inside and outside the ranges\<close>

lemma table_unique:
  assumes "scoringTables component = Some table"
    and "r \<in> set (table g)" "r' \<in> set (table g)" "in_range v r" "in_range v r'"
  shows "r' = r"
proof -
  have "table g \<in> set all_tables"
    using assms(1) by (rule scoringTables_in_all_tables)
  then have "sorted_wrt separated (table g)"
    using all_tables_separated by blast
  then show ?thesis
    using assms(2-) by (rule sorted_wrt_separated_unique)
qed

lemma table_score_bounds:
  assumes "scoringTables component = Some table" "r \<in> set (table g)"
  shows "1 \<le> score r \<and> score r \<le> 10"
proof -
  have "table g \<in> set all_tables"
    using assms(1) by (rule scoringTables_in_all_tables)
  with assms(2) show ?thesis
    using all_tables_scores by blast
qed

lemma calculateScore_hit:
  assumes "scoringTables component = Some table"
    and "r \<in> set (table g)" "in_range (scoredValue component firstTry secondTry) r"
  shows "calculateScore component g firstTry secondTry = Inr (score r)"
proof -
  have "\<forall>r'\<in>set (table g). in_range (scoredValue component firstTry secondTry) r' \<longrightarrow> r' = r"
    using table_unique [OF assms(1,2) _ assms(3)] by blast
  with assms(2,3) have "find (in_range (scoredValue component firstTry secondTry)) (table g) = Some r"
    by (intro find_unique)
  then show ?thesis
    unfolding calculateScore_find [OF assms(1)] by simp
qed

lemma calculateScore_miss:
  assumes "scoringTables component = Some table"
    and "\<forall>r\<in>set (table g). \<not> in_range (scoredValue component firstTry secondTry) r"
  shows "calculateScore component g firstTry secondTry = Inr 0"
proof -
  from assms(2) have "find (in_range (scoredValue component firstTry secondTry)) (table g) = None"
    by (rule find_none)
  then show ?thesis
    unfolding calculateScore_find [OF assms(1)] by simp
qed

lemma calculateScore_zero:
  assumes "scoringTables component = Some table"
  shows "calculateScore component g (Num 0) (Num 0) = Inr 0"
proof -
  have T: "table g \<in> set all_tables"
    using assms by (rule scoringTables_in_all_tables)
  have "scoredValue component (Num (of_int 0)) (Num (of_int 0)) = Num (of_int 0)"
    unfolding scoredValue_of_int by simp
  then have "scoredValue component (Num 0) (Num 0) = Num (of_int 0)"
    by simp
  with all_tables_zero [OF T]
  have "\<forall>r\<in>set (table g). \<not> in_range (scoredValue component (Num 0) (Num 0)) r"
    by metis
  with assms show ?thesis
    by (rule calculateScore_miss)
qed

lemma calculateScore_NaN:
  assumes "scoringTables component = Some table"
  shows "calculateScore component g NaN secondTry = Inr 0"
  using assms by (rule calculateScore_miss) (simp add: scoredValue_NaN in_range_NaN)

text \<open>
  C1. Scoring is total and partitioning. For every component of the scoring tables and
  both genders: a value that lies in a range of the table lies in exactly one range, and
  \<open>calculateScore\<close> returns the score of that range, an integer from 1 to 10; a value
  in no range scores 0. For integer trial values the value looked up is the first trial
  (sprint) or the larger of the two trials, and the integers that the table covers are
  contiguous. Zero and a missing first trial (NaN) score 0, and no call throws.
\<close>

theorem calculateScore_total_partitioning:
  assumes "scoringTables component = Some table"
  shows "(\<forall>r\<in>set (table g). in_range (scoredValue component firstTry secondTry) r \<longrightarrow>
            calculateScore component g firstTry secondTry = Inr (score r)
            \<and> 1 \<le> score r \<and> score r \<le> 10
            \<and> (\<forall>r'\<in>set (table g).
                  in_range (scoredValue component firstTry secondTry) r' \<longrightarrow> r' = r))
       \<and> ((\<forall>r\<in>set (table g). \<not> in_range (scoredValue component firstTry secondTry) r) \<longrightarrow>
            calculateScore component g firstTry secondTry = Inr 0)
       \<and> scoredValue component (Num (of_int n1)) (Num (of_int n2)) =
            Num (of_int (if component = ''50msprint'' then n1 else max n1 n2))
       \<and> (\<forall>a n b :: int. a \<le> n \<and> n \<le> b
            \<and> (\<exists>r\<in>set (table g). in_range (Num (of_int a)) r)
            \<and> (\<exists>r\<in>set (table g). in_range (Num (of_int b)) r)
            \<longrightarrow> (\<exists>r\<in>set (table g). in_range (Num (of_int n)) r))
       \<and> calculateScore component g (Num 0) (Num 0) = Inr 0
       \<and> calculateScore component g NaN secondTry = Inr 0"
proof (intro conjI ballI allI impI)
  fix r assume r: "r \<in> set (table g)" "in_range (scoredValue component firstTry secondTry) r"
  from assms r show "calculateScore component g firstTry secondTry = Inr (score r)"
    by (rule calculateScore_hit)
  from assms r(1) show "1 \<le> score r" and "score r \<le> 10"
    using table_score_bounds by blast+
  fix r' assume "r' \<in> set (table g)" "in_range (scoredValue component firstTry secondTry) r'"
  with assms r show "r' = r"
    using table_unique by blast
next
  assume "\<forall>r\<in>set (table g). \<not> in_range (scoredValue component firstTry secondTry) r"
  with assms show "calculateScore component g firstTry secondTry = Inr 0"
    by (rule calculateScore_miss)
next
  show "scoredValue component (Num (of_int n1)) (Num (of_int n2)) =
      Num (of_int (if component = ''50msprint'' then n1 else max n1 n2))"
    by (rule scoredValue_of_int)
next
  fix a n b :: int
  assume "a \<le> n \<and> n \<le> b \<and> (\<exists>r\<in>set (table g). in_range (Num (of_int a)) r)
        \<and> (\<exists>r\<in>set (table g). in_range (Num (of_int b)) r)"
  moreover have "table g \<in> set all_tables"
    using assms by (rule scoringTables_in_all_tables)
  ultimately show "\<exists>r\<in>set (table g). in_range (Num (of_int n)) r"
    using all_tables_contiguous [of "table g" a n b] by blast
next
  from assms show "calculateScore component g (Num 0) (Num 0) = Inr 0"
    by (rule calculateScore_zero)
next
  from assms show "calculateScore component g NaN secondTry = Inr 0"
    by (rule calculateScore_NaN)
qed


lemma scoringTables_gripStrength:
  "scoringTables ''gripStrength'' =
     Some (\<lambda>gender. case gender of Boy \<Rightarrow> scoringTables_gripStrength_Boy
                               | Girl \<Rightarrow> scoringTables_gripStrength_Girl)"
  by (simp add: scoringTables_def scoringTables_entries_def)

theorem calculateScore_total_partitioning_witness:
  "calculateScore ''gripStrength'' Boy (Num 30) (Num 0) = Inr 10
   \<and> calculateScore ''gripStrength'' Boy (Num 0) (Num 0) = Inr 0
   \<and> calculateScore ''gripStrength'' Boy NaN (Num 0) = Inr 0"
proof -
  let ?r = "\<lparr>range_min = Num 26, range_max = Num 100, score = 10\<rparr>"
  note th = calculateScore_total_partitioning [OF scoringTables_gripStrength,
      of Boy "Num 30" "Num 0" 0 0]
  have "?r \<in> set scoringTables_gripStrength_Boy"
    by (simp add: scoringTables_gripStrength_Boy_def)
  moreover have "in_range (scoredValue ''gripStrength'' (Num 30) (Num 0)) ?r"
    by (simp add: scoredValue_def in_range_def number_ge_def)
  ultimately have "calculateScore ''gripStrength'' Boy (Num 30) (Num 0) = Inr (score ?r)"
    using th by (simp del: set_simps)
  with th show ?thesis
    by simp
qed

subsection \<open>The sprint lookup\<close>

lemma scoringTables_sprint:
  "scoringTables ''50msprint'' =
     Some (\<lambda>gender. case gender of Boy \<Rightarrow> scoringTables_sprint_50m_Boy
                               | Girl \<Rightarrow> scoringTables_sprint_50m_Girl)"
  by (simp add: scoringTables_def scoringTables_entries_def)











subsection \<open>Single-trial components\<close>

lemma scoringTables_situps:
  "scoringTables ''situps'' =
     Some (\<lambda>gender. case gender of Boy \<Rightarrow> scoringTables_situps_Boy
                               | Girl \<Rightarrow> scoringTables_situps_Girl)"
  by (simp add: scoringTables_def scoringTables_entries_def)

lemma calculateScore_situps_Boy_10:
  "calculateScore ''situps'' Boy (Num 10) (Num 0) = Inr 4"
  by (simp add: calculateScore_find [OF scoringTables_situps] scoredValue_def
      scoringTables_situps_Boy_def in_range_def number_ge_def)

lemma calculateScore_situps_Boy_10_20:
  "calculateScore ''situps'' Boy (Num 10) (Num 20) = Inr 8"
  by (simp add: calculateScore_find [OF scoringTables_situps] scoredValue_def
      scoringTables_situps_Boy_def in_range_def number_ge_def)

lemma individual_component_second_try:
  assumes "key = ''situps'' \<or> key = ''50msprint'' \<or> key = ''20mshuttleruns''"
  shows "individual_component (student\<lparr>try_2nd := t\<rparr>) key st = individual_component student key st"
  using assms by (elim disjE) (simp_all add: individual_component_def)

lemma single_component_second_try:
  assumes "key = ''situps'' \<or> key = ''50msprint'' \<or> key = ''20mshuttleruns''"
  shows "single_component (student\<lparr>try_2nd := t\<rparr>) key st = single_component student key st"
  using assms by (elim disjE) (simp_all add: single_component_def)

lemma calculateScore_sprint_second_try:
  "calculateScore ''50msprint'' g firstTry secondTry = calculateScore ''50msprint'' g firstTry secondTry'"
  by (simp add: calculateScore_find [OF scoringTables_sprint] scoredValue_def)

lemma renderEditView_component_sprint_second_try:
  "renderEditView_component (student\<lparr>try_2nd := t\<rparr>) ''50msprint'' st =
   renderEditView_component student ''50msprint'' st"
  by (simp add: renderEditView_component_def Let_def
      calculateScore_find [OF scoringTables_sprint] scoredValue_def split: prod.splits)

text \<open>
  C2. For situps, 50msprint and 20mshuttleruns the score should depend on the first trial
  only, in both exports and in the edit view. Both exports pass 0 as the second trial
  (lemmas \<open>individual_component_second_try\<close> and \<open>single_component_second_try\<close>), and
  the sprint branch of \<open>calculateScore\<close> never reads it; the edit view passes the stored
  second trial, so for sit-ups (and shuttle runs) it scores the larger of the two trials.
  For a boy with 10 sit-ups in the first trial and 20 stored for the second, the first
  trial alone scores 4, both exports give 4, and the edit view gives 8.
\<close>

theorem edit_view_situps_uses_second_try:
  "calculateScore ''situps'' Boy (Num 10) (Num 0) = Inr 4
   \<and> map_sum id snd (individual_component student_situps_10_20 ''situps'' ([], 0)) = Inr 4
   \<and> map_sum id snd (single_component student_situps_10_20 ''situps'' ([], 0)) = Inr 4
   \<and> map_sum id snd (renderEditView_component student_situps_10_20 ''situps'' ([], 0)) = Inr 8"
  by (simp add: individual_component_def single_component_def renderEditView_component_def
      student_situps_10_20_def ToNumber_def nullish_def
      calculateScore_situps_Boy_10 calculateScore_situps_Boy_10_20)


subsection \<open>Grip strength\<close>

lemma Math_max2_zero_gripStrength:
  "find (in_range (Math_max [m, Num 0])) scoringTables_gripStrength_Boy
     = find (in_range m) scoringTables_gripStrength_Boy"
  "find (in_range (Math_max [m, Num 0])) scoringTables_gripStrength_Girl
     = find (in_range m) scoringTables_gripStrength_Girl"
  by (cases m; simp add: scoringTables_gripStrength_Boy_def scoringTables_gripStrength_Girl_def
      in_range_def number_ge_def)+

lemma calculateScore_gripStrength_lookup:
  "calculateScore ''gripStrength'' g m (Num 0) =
     Inr (case find (in_range m)
                 (case g of Boy \<Rightarrow> scoringTables_gripStrength_Boy
                          | Girl \<Rightarrow> scoringTables_gripStrength_Girl) of
            Some r \<Rightarrow> score r | None \<Rightarrow> 0)"
  by (cases g)
    (simp_all add: calculateScore_find [OF scoringTables_gripStrength] scoredValue_def
      Math_max2_zero_gripStrength [simplified])


lemma individual_component_gripStrength:
  "map_sum id snd (individual_component student ''gripStrength'' (ws, tot)) =
     Inr (tot +
       (case find (in_range (Math_max
                    [ToNumber (try_1st student ''gripstrR''),
                     ToNumber (nullish (try_2nd student ''gripstrR'') (try_1st student ''gripstrR'')),
                     ToNumber (try_1st student ''gripstrL''),
                     ToNumber (nullish (try_2nd student ''gripstrL'') (try_1st student ''gripstrL''))]))
                 (case gender student of Boy \<Rightarrow> scoringTables_gripStrength_Boy
                                        | Girl \<Rightarrow> scoringTables_gripStrength_Girl) of
          Some r \<Rightarrow> score r | None \<Rightarrow> 0))"
  by (simp add: individual_component_def calculateScore_gripStrength_lookup Let_def)

lemma single_component_gripStrength:
  "map_sum id snd (single_component student ''gripStrength'' (ws, tot)) =
     Inr (tot +
       (case find (in_range (Math_max
                    [ToNumber (try_1st student ''gripstrR''),
                     ToNumber (nullish (try_2nd student ''gripstrR'') (try_1st student ''gripstrR'')),
                     ToNumber (try_1st student ''gripstrL''),
                     ToNumber (nullish (try_2nd student ''gripstrL'') (try_1st student ''gripstrL''))]))
                 (case gender student of Boy \<Rightarrow> scoringTables_gripStrength_Boy
                                        | Girl \<Rightarrow> scoringTables_gripStrength_Girl) of
          Some r \<Rightarrow> score r | None \<Rightarrow> 0))"
  by (simp add: single_component_def calculateScore_gripStrength_lookup Let_def)

lemma renderGripStrength_lookup:
  "map_sum id row_score (renderGripStrength student) =
     Inr (case find (in_range (Math_max
                    [ToNumber (try_1st student ''gripstrR''), ToNumber (try_2nd student ''gripstrR''),
                     ToNumber (try_1st student ''gripstrL''), ToNumber (try_2nd student ''gripstrL'')]))
                 (case gender student of Boy \<Rightarrow> scoringTables_gripStrength_Boy
                                        | Girl \<Rightarrow> scoringTables_gripStrength_Girl) of
          Some r \<Rightarrow> score r | None \<Rightarrow> 0)"
  by (simp add: renderGripStrength_def calculateScore_gripStrength_lookup Let_def)

lemma Math_max_four_Num:
  "Math_max [Num a, Num b, Num c, Num d] = Num (max a (max b (max c d)))"
  by (simp add: max_def)

lemma gripStrength_new_maximum:
  assumes "try_1st student ''gripstrR'' = Some (Num a)" "try_2nd student ''gripstrR'' = Some (Num b)"
    and "try_1st student ''gripstrL'' = Some (Num c)" "try_2nd student ''gripstrL'' = Some (Num d)"
    and "v \<in> {a, b, c, d}" "a \<le> v" "b \<le> v" "c \<le> v" "d \<le> v"
  shows "map_sum id snd (individual_component student ''gripStrength'' (ws, tot)) =
           Inr (tot + (case find (in_range (Num v))
                 (case gender student of Boy \<Rightarrow> scoringTables_gripStrength_Boy
                                        | Girl \<Rightarrow> scoringTables_gripStrength_Girl) of
                   Some r \<Rightarrow> score r | None \<Rightarrow> 0))"
    and "map_sum id row_score (renderGripStrength student) =
           Inr (case find (in_range (Num v))
                 (case gender student of Boy \<Rightarrow> scoringTables_gripStrength_Boy
                                        | Girl \<Rightarrow> scoringTables_gripStrength_Girl) of
                   Some r \<Rightarrow> score r | None \<Rightarrow> 0)"
proof -
  have "max a (max b (max c d)) = v"
    using assms(5-) by auto
  then have m: "Math_max [Num a, Num b, Num c, Num d] = Num v"
    by (simp only: Math_max_four_Num)
  show "map_sum id snd (individual_component student ''gripStrength'' (ws, tot)) =
           Inr (tot + (case find (in_range (Num v))
                 (case gender student of Boy \<Rightarrow> scoringTables_gripStrength_Boy
                                        | Girl \<Rightarrow> scoringTables_gripStrength_Girl) of
                   Some r \<Rightarrow> score r | None \<Rightarrow> 0))"
    unfolding individual_component_gripStrength
    by (simp only: assms(1-4) nullish_def ToNumber_def option.case m)
  show "map_sum id row_score (renderGripStrength student) =
           Inr (case find (in_range (Num v))
                 (case gender student of Boy \<Rightarrow> scoringTables_gripStrength_Boy
                                        | Girl \<Rightarrow> scoringTables_gripStrength_Girl) of
                   Some r \<Rightarrow> score r | None \<Rightarrow> 0)"
    unfolding renderGripStrength_lookup
    by (simp only: assms(1-4) ToNumber_def option.case m)
qed

text \<open>
  C3. The grip-strength score should be the lookup of the largest of the four values,
  where a missing second trial is replaced by the first trial of the same hand. The
  exports do so (\<open>individual_component_gripStrength\<close>, \<open>single_component_gripStrength\<close>);
  \<open>renderGripStrength\<close> takes \<open>Math.max\<close> of the four stored values with no replacement,
  so a missing second trial makes the maximum NaN. For a boy with 30 and 20 in the first
  trial and no second trial stored, both exports score 10 and the edit view scores 0.
  When the four values are stored, the two paths agree and score the largest value
  (\<open>gripStrength_new_maximum\<close>).
\<close>

theorem edit_view_grip_without_second_try:
  "map_sum id snd (individual_component student_grip_first_trial_only ''gripStrength'' ([], 0)) = Inr 10
   \<and> map_sum id snd (single_component student_grip_first_trial_only ''gripStrength'' ([], 0)) = Inr 10
   \<and> renderGripStrength student_grip_first_trial_only =
        Inr (GripRow (Some (Num 30)) None (Some (Num 20)) None NaN 0)"
proof (intro conjI)
  show "map_sum id snd (individual_component student_grip_first_trial_only ''gripStrength'' ([], 0)) = Inr 10"
    unfolding individual_component_gripStrength
    by (simp add: student_grip_first_trial_only_def nullish_def ToNumber_def
        scoringTables_gripStrength_Boy_def in_range_def number_ge_def)
  show "map_sum id snd (single_component student_grip_first_trial_only ''gripStrength'' ([], 0)) = Inr 10"
    unfolding single_component_gripStrength
    by (simp add: student_grip_first_trial_only_def nullish_def ToNumber_def
        scoringTables_gripStrength_Boy_def in_range_def number_ge_def)
  show "renderGripStrength student_grip_first_trial_only =
        Inr (GripRow (Some (Num 30)) None (Some (Num 20)) None NaN 0)"
    by (simp add: renderGripStrength_def calculateScore_gripStrength_lookup
        student_grip_first_trial_only_def ToNumber_def
        scoringTables_gripStrength_Boy_def in_range_def number_ge_def)
qed

section \<open>Properties of the reports\<close>

lemma styles_equal:
  "single_headerStyle = individual_headerStyle"
  "single_dataStyle = individual_dataStyle"
  "single_leftAlignedDataStyle = individual_leftAlignedDataStyle"
  by (simp_all only: single_headerStyle_def individual_headerStyle_def
      single_dataStyle_def individual_dataStyle_def
      single_leftAlignedDataStyle_def individual_leftAlignedDataStyle_def)

lemma applyStyleToCell_equal: "single_applyStyleToCell = individual_applyStyleToCell"
proof
  fix colNumber
  show "single_applyStyleToCell colNumber = individual_applyStyleToCell colNumber"
    by (simp only: single_applyStyleToCell_def individual_applyStyleToCell_def styles_equal)
qed

lemma header_equal: "single_header i student = individual_header i student"
  by (simp only: single_header_def individual_header_def styles_equal applyStyleToCell_equal)

lemma component_equal: "single_component student key st = individual_component student key st"
  by (simp only: single_component_def individual_component_def styles_equal
      applyStyleToCell_equal)

lemma student_equal: "single_student i student = individual_student i student"
proof -
  have "single_component student = individual_component student"
    by (intro ext) (rule component_equal)
  then show ?thesis
    by (simp only: single_student_def individual_student_def header_equal
        applyStyleToCell_equal)
qed

lemma loops_equal:
  "map_sum id (map calls) (single_loop i index students) =
   map_sum id (map (calls \<circ> snd)) (individual_loop i students)"
proof (induction students arbitrary: i index)
  case Nil
  show ?case by simp
next
  case (Cons student students)
  show ?case
  proof (cases "individual_student i student")
    case (Inl e)
    then show ?thesis
      by (simp add: student_equal)
  next
    case (Inr ws)
    with Cons [of "i + 1" "index + 1"] show ?thesis
      by (cases "individual_loop (i + 1) students"; cases "single_loop (i + 1) (index + 1) students")
        (simp_all add: student_equal)
  qed
qed

text \<open>
  C9. The two export modes render each student identically: for every ordinal and
  student, the calls made on the student's worksheet (cell values, styles, merges, the
  scores, the total and the grade, the column widths) are the same in the export of
  individual workbooks and in the export of a single workbook, and for every list of
  students the two exports fail together or produce the same sequence of sheets. Only
  the names of the sheets differ (\<open>sheet_names_differ\<close>).
\<close>

theorem export_modes_render_identically:
  "single_student i student = individual_student i student
   \<and> map_sum id (map calls \<circ> snd) (exportGradeToSingleWorkbook students selectedGrade) =
     map_sum id (map (calls \<circ> snd) \<circ> snd) (exportGradeToIndividualWorkbooks students selectedGrade)"
proof
  show "single_student i student = individual_student i student"
    by (rule student_equal)
  from loops_equal [of 1 0 students]
  show "map_sum id (map calls \<circ> snd) (exportGradeToSingleWorkbook students selectedGrade) =
     map_sum id (map (calls \<circ> snd) \<circ> snd) (exportGradeToIndividualWorkbooks students selectedGrade)"
    unfolding exportGradeToSingleWorkbook_def exportGradeToIndividualWorkbooks_def
    by (cases "individual_loop 1 students"; cases "single_loop 1 0 students") simp_all
qed

lemma sheet_names_differ:
  "map_sum id (map sheet_name \<circ> snd) (exportGradeToSingleWorkbook [student_situps_10_20] ''G1A'')
     = Inr [''1 Taro'']"
  "map_sum id (map (sheet_name \<circ> snd) \<circ> snd)
       (exportGradeToIndividualWorkbooks [student_situps_10_20] ''G1A'')
     = Inr [''Grade 1'']"
  by code_simp+

section \<open>Properties of the CSV import\<close>

subsection \<open>Splitting and the row object\<close>

lemma split_from_not_Nil: "split_from sep cur s \<noteq> []"
  by (induction s arbitrary: cur) auto

lemma String_split_not_Nil: "String_split sep s \<noteq> []"
  by (simp add: String_split_def split_from_not_Nil)

lemma split_from_no_separator: "sep \<notin> set s \<Longrightarrow> split_from sep cur s = [cur @ s]"
  by (induction s arbitrary: cur) auto

lemma String_split_no_separator: "sep \<notin> set s \<Longrightarrow> String_split sep s = [s]"
  by (simp add: String_split_def split_from_no_separator)

lemma headers_forEach_foldl:
  "headers_forEach headers index values student =
     foldl (\<lambda>s (h, v). set_property s h v) student
       (zip headers (map (value_or_empty values) [index..<index + length headers]))"
proof (induction headers arbitrary: index student)
  case Nil
  show ?case by simp
next
  case (Cons header headers)
  have "[index..<index + Suc n] = index # [index + 1..<index + 1 + n]" for n
    by (induction n) simp_all
  from this [of "length headers"]
  have "[index..<index + length (header # headers)] =
      index # [index + 1..<index + 1 + length headers]"
    by (simp only: length_Cons)
  then show ?case
    by (simp only: headers_forEach.simps Cons.IH list.map zip_Cons_Cons foldl_Cons prod.case)
qed

lemma foldl_set_property_lookup:
  assumes "key \<noteq> ''__proto__''"
  shows "foldl (\<lambda>s (h, v). set_property s h v) student ps key =
     (case map_of (rev ps) key of Some v \<Rightarrow> Some v | None \<Rightarrow> student key)"
proof (induction ps arbitrary: student)
  case Nil
  show ?case by simp
next
  case (Cons p ps)
  obtain h v where p: "p = (h, v)"
    by (cases p)
  have step: "set_property student h v key = (if h = key then Some v else student key)"
    using assms by (auto simp: set_property_def)
  show ?case
    by (simp add: Cons.IH p step map_add_def split: option.splits)
qed

lemma value_or_empty_padded:
  "map (value_or_empty values) [0..<n] = take n (values @ replicate (n - length values) [])"
proof (rule nth_equalityI)
  show "length (map (value_or_empty values) [0..<n]) =
      length (take n (values @ replicate (n - length values) []))"
    by simp
next
  fix i assume "i < length (map (value_or_empty values) [0..<n])"
  then have "i < n"
    by simp
  then show "map (value_or_empty values) [0..<n] ! i =
      take n (values @ replicate (n - length values) []) ! i"
    by (simp add: value_or_empty_def nth_append)
qed

lemma zip_take_length: "zip xs (take (length xs) ys) = zip xs ys"
proof (induction xs arbitrary: ys)
  case Nil
  show ?case by simp
next
  case (Cons x xs)
  then show ?case by (cases ys) simp_all
qed

lemma row_to_student_spec:
  assumes "key \<noteq> ''__proto__''"
  shows "row_to_student headers line key = spec_record headers (csv_values line) key"
proof -
  have "row_to_student headers line key =
      (case map_of (rev (zip headers (map (value_or_empty (csv_values line)) [0..<length headers]))) key of
         Some v \<Rightarrow> Some v | None \<Rightarrow> None)"
    unfolding row_to_student_def Let_def csv_values_def [symmetric] headers_forEach_foldl
    using foldl_set_property_lookup [OF assms, of Map.empty] by simp
  also have "\<dots> = spec_record headers (csv_values line) key"
    unfolding spec_record_def value_or_empty_padded zip_take_length
    by (simp split: option.splits)
  finally show ?thesis .
qed


subsection \<open>The required-field filter\<close>

lemma required_fields_not_proto: "f \<in> set required_fields \<Longrightarrow> f \<noteq> ''__proto__''"
  by (auto simp: required_fields_def)

lemma processCSV_filter_map:
  "processCSV csvData =
     filter (\<lambda>student. \<forall>f\<in>set required_fields. truthy student f)
       (map (row_to_student (csv_headers csvData)) (csv_rows csvData))"
proof (cases "String_split CHR 0x0A csvData")
  case Nil
  then show ?thesis
    by (simp add: String_split_not_Nil)
next
  case (Cons first rest)
  then show ?thesis
    by (simp add: processCSV_def csv_headers_def csv_rows_def required_fields_def Let_def)
qed

lemma truthy_iff: "truthy student f \<longleftrightarrow> (\<exists>v. student f = Some v \<and> v \<noteq> [])"
  by (simp add: truthy_def split: option.splits)

lemma truthy_row_spec:
  assumes "f \<in> set required_fields"
  shows "truthy (row_to_student headers line) f \<longleftrightarrow>
     (\<exists>v. spec_record headers (csv_values line) f = Some v \<and> v \<noteq> [])"
  by (simp add: truthy_iff row_to_student_spec [OF required_fields_not_proto [OF assms]])

lemma spec_record_short_row:
  assumes "f \<notin> set (take (length values) headers)"
  shows "spec_record headers values f = None \<or> spec_record headers values f = Some []"
proof (cases "spec_record headers values f")
  case None
  then show ?thesis by simp
next
  case (Some v)
  let ?padded = "values @ replicate (length headers - length values) []"
  from Some have "(f, v) \<in> set (rev (zip headers ?padded))"
    unfolding spec_record_def by (rule map_of_SomeD)
  then obtain i where i: "i < length headers" "headers ! i = f" "?padded ! i = v"
    by (auto simp: in_set_zip)
  have "\<not> i < length values"
  proof
    assume "i < length values"
    with i(1,2) have "f \<in> set (take (length values) headers)"
      by (auto simp: in_set_conv_nth intro!: exI [of _ i])
    with assms show False by simp
  qed
  with i(1,3) have "v = []"
    by (simp add: nth_append)
  with Some show ?thesis by simp
qed

lemma standard_header_short_row:
  assumes "distinct headers" "set headers = set required_fields" "length values < 7"
  shows "\<exists>f\<in>set required_fields. f \<notin> set (take (length values) headers)"
proof -
  have "distinct required_fields" "length required_fields = 7"
    by (simp_all add: required_fields_def)
  then have "card (set required_fields) = 7"
    by (simp add: distinct_card)
  with assms(1,2) have len: "length headers = 7"
    by (metis distinct_card)
  let ?n = "length values"
  from len assms(3) have n: "?n < length headers"
    by simp
  then have "headers ! ?n \<in> set required_fields"
    using assms(2) by (metis nth_mem)
  moreover have "headers ! ?n \<notin> set (take ?n headers)"
  proof
    assume "headers ! ?n \<in> set (take ?n headers)"
    then obtain j where "j < ?n" "headers ! j = headers ! ?n"
      by (auto simp: in_set_conv_nth)
    with assms(1) n show False
      by (auto simp: distinct_conv_nth)
  qed
  ultimately show ?thesis by blast
qed

lemma processCSV_output_truthy:
  assumes "student \<in> set (processCSV csvData)" "f \<in> set required_fields"
  shows "\<exists>v. student f = Some v \<and> v \<noteq> []"
  using assms unfolding processCSV_filter_map by (auto simp: truthy_iff)

lemma short_row_dropped:
  assumes "f \<in> set required_fields" "f \<notin> set (take (length (csv_values line)) headers)"
  shows "\<not> truthy (row_to_student headers line) f"
  using spec_record_short_row [OF assms(2)] by (auto simp: truthy_row_spec [OF assms(1)])

lemma short_row_not_in_output:
  assumes "\<exists>f\<in>set required_fields. f \<notin> set (take (length (csv_values line)) (csv_headers csvData))"
  shows "row_to_student (csv_headers csvData) line \<notin> set (processCSV csvData)"
proof
  assume "row_to_student (csv_headers csvData) line \<in> set (processCSV csvData)"
  then have "\<forall>f\<in>set required_fields. truthy (row_to_student (csv_headers csvData) line) f"
    unfolding processCSV_filter_map by simp
  with assms show False
    using short_row_dropped by blast
qed

lemma processCSV_no_newline: "CHR 0x0A \<notin> set csvData \<Longrightarrow> processCSV csvData = []"
  by (simp add: processCSV_def String_split_no_separator)

lemma processCSV_examples:
  "processCSV '''' = []"
  "processCSV ''enname,jpname,firstname,gender,grade,class,teacher'' = []"
  "processCSV (''enname,jpname,firstname,gender,grade,class,teacher'' @ [CHR 0x0A] @ ''A,B,C,Boy,1,G1A'') = []"
  "processCSV (''enname,jpname,firstname,gender,grade,class,teacher'' @ [CHR 0x0A] @ ''A,B,C,Boy,1,G1A,'') = []"
  "map (\<lambda>student. map student required_fields)
      (processCSV (''enname,jpname,firstname,gender,grade,class,teacher'' @ [CHR 0x0A] @ ''A, B ,C,Boy,1,G1A,T'' @ [CHR 0x0A]))
     = [[Some ''A'', Some ''B'', Some ''C'', Some ''Boy'', Some ''1'', Some ''G1A'', Some ''T'']]"
  by code_simp+


text \<open>
  C7. The import parser keeps a data row exactly when all seven required fields are
  non-empty after trimming. The parsed row agrees with the header-zipped record on the
  required fields, with the empty string for missing trailing columns; the output is the
  rows whose seven fields are present and non-empty, in input order; a row that has no
  column for some required field is not in the output, in particular every row with
  fewer than seven columns under the seven-column header; input without a line break
  (empty or header only) gives the empty list. \<open>processCSV\<close> has no failing branch. A
  row without the teacher column, or with an empty one, is dropped.
\<close>

theorem processCSV_required_fields:
  "processCSV csvData =
     map (row_to_student (csv_headers csvData))
       (filter (\<lambda>line. \<forall>f\<in>set required_fields.
                  \<exists>v. spec_record (csv_headers csvData) (csv_values line) f = Some v \<and> v \<noteq> [])
          (csv_rows csvData))
   \<and> (\<forall>line. \<forall>f\<in>set required_fields.
         row_to_student (csv_headers csvData) line f =
           spec_record (csv_headers csvData) (csv_values line) f)
   \<and> (\<forall>student\<in>set (processCSV csvData). \<forall>f\<in>set required_fields.
         \<exists>v. student f = Some v \<and> v \<noteq> [])
   \<and> (\<forall>line. (\<exists>f\<in>set required_fields.
                  f \<notin> set (take (length (csv_values line)) (csv_headers csvData)))
         \<longrightarrow> row_to_student (csv_headers csvData) line \<notin> set (processCSV csvData))
   \<and> (\<forall>line. distinct (csv_headers csvData) \<and> set (csv_headers csvData) = set required_fields
               \<and> length (csv_values line) < 7
         \<longrightarrow> row_to_student (csv_headers csvData) line \<notin> set (processCSV csvData))
   \<and> (CHR 0x0A \<notin> set csvData \<longrightarrow> processCSV csvData = [])
   \<and> processCSV '''' = []
   \<and> processCSV ''enname,jpname,firstname,gender,grade,class,teacher'' = []
   \<and> processCSV (''enname,jpname,firstname,gender,grade,class,teacher'' @ [CHR 0x0A] @ ''A,B,C,Boy,1,G1A'') = []
   \<and> processCSV (''enname,jpname,firstname,gender,grade,class,teacher'' @ [CHR 0x0A] @ ''A,B,C,Boy,1,G1A,'') = []
   \<and> map (\<lambda>student. map student required_fields)
        (processCSV (''enname,jpname,firstname,gender,grade,class,teacher'' @ [CHR 0x0A] @ ''A, B ,C,Boy,1,G1A,T'' @ [CHR 0x0A]))
      = [[Some ''A'', Some ''B'', Some ''C'', Some ''Boy'', Some ''1'', Some ''G1A'', Some ''T'']]"
proof (intro conjI allI ballI impI)
  have "filter (\<lambda>student. \<forall>f\<in>set required_fields. truthy student f)
          (map (row_to_student (csv_headers csvData)) (csv_rows csvData)) =
        map (row_to_student (csv_headers csvData))
          (filter (\<lambda>line. \<forall>f\<in>set required_fields.
                     truthy (row_to_student (csv_headers csvData) line) f) (csv_rows csvData))"
    by (simp add: filter_map comp_def)
  also have "(\<lambda>line. \<forall>f\<in>set required_fields.
                     truthy (row_to_student (csv_headers csvData) line) f) =
      (\<lambda>line. \<forall>f\<in>set required_fields.
                  \<exists>v. spec_record (csv_headers csvData) (csv_values line) f = Some v \<and> v \<noteq> [])"
    by (intro ext ball_cong refl) (rule truthy_row_spec)
  finally show "processCSV csvData =
     map (row_to_student (csv_headers csvData))
       (filter (\<lambda>line. \<forall>f\<in>set required_fields.
                  \<exists>v. spec_record (csv_headers csvData) (csv_values line) f = Some v \<and> v \<noteq> [])
          (csv_rows csvData))"
    unfolding processCSV_filter_map .
next
  fix line f assume "f \<in> set required_fields"
  then show "row_to_student (csv_headers csvData) line f =
      spec_record (csv_headers csvData) (csv_values line) f"
    by (intro row_to_student_spec required_fields_not_proto)
next
  fix student f assume "student \<in> set (processCSV csvData)" "f \<in> set required_fields"
  then show "\<exists>v. student f = Some v \<and> v \<noteq> []"
    by (rule processCSV_output_truthy)
next
  fix line
  assume "\<exists>f\<in>set required_fields.
      f \<notin> set (take (length (csv_values line)) (csv_headers csvData))"
  then show "row_to_student (csv_headers csvData) line \<notin> set (processCSV csvData)"
    by (rule short_row_not_in_output)
next
  fix line
  assume "distinct (csv_headers csvData) \<and> set (csv_headers csvData) = set required_fields
      \<and> length (csv_values line) < 7"
  then have "\<exists>f\<in>set required_fields.
      f \<notin> set (take (length (csv_values line)) (csv_headers csvData))"
    by (intro standard_header_short_row) simp_all
  then show "row_to_student (csv_headers csvData) line \<notin> set (processCSV csvData)"
    by (rule short_row_not_in_output)
next
  assume "CHR 0x0A \<notin> set csvData"
  then show "processCSV csvData = []"
    by (rule processCSV_no_newline)
qed (rule processCSV_examples)+


theorem processCSV_required_fields_witness:
  "row_to_student
      (csv_headers (''enname,jpname,firstname,gender,grade,class,teacher'' @ [CHR 0x0A] @ ''A,B,C,Boy,1,G1A''))
      ''A,B,C,Boy,1,G1A''
     \<notin> set (processCSV (''enname,jpname,firstname,gender,grade,class,teacher'' @ [CHR 0x0A] @ ''A,B,C,Boy,1,G1A''))
   \<and> processCSV ''enname,jpname,firstname,gender,grade,class,teacher'' = []"
proof
  let ?csv = "''enname,jpname,firstname,gender,grade,class,teacher'' @ [CHR 0x0A] @ ''A,B,C,Boy,1,G1A''"
  have h: "csv_headers ?csv = required_fields"
    by code_simp
  have v: "length (csv_values ''A,B,C,Boy,1,G1A'') = 6"
    by code_simp
  have d: "distinct required_fields"
    by (simp add: required_fields_def)
  note short = processCSV_required_fields [of ?csv,
      THEN conjunct2, THEN conjunct2, THEN conjunct2, THEN conjunct2, THEN conjunct1,
      THEN spec, of "''A,B,C,Boy,1,G1A''", THEN mp]
  show "row_to_student (csv_headers ?csv) ''A,B,C,Boy,1,G1A'' \<notin> set (processCSV ?csv)"
  proof (rule short, intro conjI)
    show "distinct (csv_headers ?csv)"
      unfolding h by (rule d)
    show "set (csv_headers ?csv) = set required_fields"
      unfolding h by (rule refl)
    show "length (csv_values ''A,B,C,Boy,1,G1A'') < 7"
      unfolding v by simp
  qed
  show "processCSV ''enname,jpname,firstname,gender,grade,class,teacher'' = []"
    by (rule processCSV_required_fields [of "[]",
      THEN conjunct2, THEN conjunct2, THEN conjunct2, THEN conjunct2, THEN conjunct2,
      THEN conjunct2, THEN conjunct2, THEN conjunct1])
qed

section \<open>Properties of the import followed by the export\<close>

lemma ten_students_selected_grade:
  "import_then_export csv_ten_students ''2026'' [] [''G1A''] ''G1A'' =
     (''Successfully uploaded student data!'', csv_ten_students)"
  by code_simp

lemma ten_students_all_grades:
  "import_then_export csv_ten_students ''2026'' [] [''G1A''] '''' =
     (''Successfully uploaded student data!'',
      join [CHR 0x0A]
        [csv_header_line,
         ''E1,J1,F1,Boy,1,G1A,T'', ''E10,J10,F10,Girl,1,G1A,T'', ''E2,J2,F2,Girl,1,G1A,T'',
         ''E3,J3,F3,Boy,1,G1A,T'', ''E4,J4,F4,Girl,1,G1A,T'', ''E5,J5,F5,Boy,1,G1A,T'',
         ''E6,J6,F6,Girl,1,G1A,T'', ''E7,J7,F7,Boy,1,G1A,T'', ''E8,J8,F8,Girl,1,G1A,T'',
         ''E9,J9,F9,Boy,1,G1A,T''])"
  by code_simp

lemma constructor_class_passes_filter:
  "map (\<lambda>student. map student required_fields) (processCSV csv_constructor_class) =
     [[Some ''E1'', Some ''J1'', Some ''F1'', Some ''Boy'', Some ''1'', Some ''constructor'',
       Some ''T'']]"
  by code_simp

lemma constructor_class_upload_fails:
  "uploadToFirebase ''2026'' (processCSV csv_constructor_class) [] =
     (''Error uploading data. Please try again.'', [])"
  "import_then_export csv_constructor_class ''2026'' [] [''constructor''] ''constructor'' =
     (''Error uploading data. Please try again.'', csv_header_line)"
  "import_then_export csv_constructor_class ''2026'' [] [''constructor''] '''' =
     (''Error uploading data. Please try again.'', csv_header_line)"
  by code_simp+

text \<open>
  C8. Importing a file and exporting the roster again should reproduce the seven fields
  of every student, in the original order within each class. For ten students of one
  class, the export of the selected class does so: it sorts the entries by the number of
  their key. The export of all grades pushes the entries as the snapshot lists them,
  without that sort, and gives the order 1, 10, 2, ..., 9. A student whose class is
  \<open>constructor\<close> passes the required-field filter, and the grouping by class then throws
  inside \<open>uploadToFirebase\<close>: nothing is stored, and the export holds the header only.
\<close>

theorem import_then_export_loses_order_or_rows:
  "import_then_export csv_ten_students ''2026'' [] [''G1A''] ''G1A'' =
     (''Successfully uploaded student data!'', csv_ten_students)
   \<and> import_then_export csv_ten_students ''2026'' [] [''G1A''] '''' =
     (''Successfully uploaded student data!'',
      join [CHR 0x0A]
        [csv_header_line,
         ''E1,J1,F1,Boy,1,G1A,T'', ''E10,J10,F10,Girl,1,G1A,T'', ''E2,J2,F2,Girl,1,G1A,T'',
         ''E3,J3,F3,Boy,1,G1A,T'', ''E4,J4,F4,Girl,1,G1A,T'', ''E5,J5,F5,Boy,1,G1A,T'',
         ''E6,J6,F6,Girl,1,G1A,T'', ''E7,J7,F7,Boy,1,G1A,T'', ''E8,J8,F8,Girl,1,G1A,T'',
         ''E9,J9,F9,Boy,1,G1A,T''])
   \<and> map (\<lambda>student. map student required_fields) (processCSV csv_constructor_class) =
     [[Some ''E1'', Some ''J1'', Some ''F1'', Some ''Boy'', Some ''1'', Some ''constructor'',
       Some ''T'']]
   \<and> import_then_export csv_constructor_class ''2026'' [] [''constructor''] ''constructor'' =
     (''Error uploading data. Please try again.'', csv_header_line)"
  by (intro conjI ten_students_selected_grade ten_students_all_grades
      constructor_class_passes_filter constructor_class_upload_fails(2))

end
